theory Spec2Isabelle
  imports Complex_Main "HOL-Library.AList"
begin

section \<open>Python values, exceptions and library functions\<close>

text \<open>
  The agents exchange dynamically typed Python values: decisions parsed from JSON, tool
  results, the dictionaries that the gate functions return. They are modelled by one
  datatype; a dictionary is an association list in insertion order (its keys are strings
  everywhere in the modelled code). \<open>PTime\<close> stands for a \<open>datetime\<close>: the
  number of a clock reading.
\<close>

datatype pyval =
    PNone
  | PBool bool
  | PInt int
  | PFloat real
  | PStr string
  | PTime nat
  | PList "pyval list"
  | PDict "(string \<times> pyval) list"

type_synonym pydict = "(string \<times> pyval) list"

text \<open>
  An exception is its class name and the text \<open>str(e)\<close>. Only subclasses of
  \<open>Exception\<close> are modelled (what \<open>except Exception\<close> catches).
\<close>

datatype exn = Exn string string

fun exn_class :: "exn \<Rightarrow> string" where
  "exn_class (Exn c m) = c"

fun exn_str :: "exn \<Rightarrow> string" where
  "exn_str (Exn c m) = m"

text \<open>
  Functions of the Python runtime and of the \<open>json\<close> module are not code of the
  repository; the model takes them as parameters, bundled in one record:
  \<^item> \<open>fmt v\<close> is \<open>str(v)\<close> for a value that is not a string (an f-string
    field, the \<open>repr\<close> of a list of names);
  \<^item> \<open>loads s\<close> is \<open>json.loads(s)\<close>;
  \<^item> \<open>dumps v\<close> is \<open>json.dumps(v, indent=2, default=str)\<close>;
  \<^item> \<open>dumps_plain v\<close> is \<open>json.dumps(v, indent=2)\<close>;
  \<^item> \<open>unpack_error v\<close> is the text of the TypeError that \<open>f(**v)\<close> raises
    when \<open>v\<close> is not a mapping;
  \<^item> \<open>slice_error v\<close> is the exception that \<open>v[:100]\<close> raises when \<open>v\<close>
    is neither a string nor a list.
\<close>

record py_lib =
  fmt :: "pyval \<Rightarrow> string"
  loads :: "string \<Rightarrow> exn + pyval"
  dumps :: "pyval \<Rightarrow> exn + string"
  dumps_plain :: "pyval \<Rightarrow> exn + string"
  unpack_error :: "pyval \<Rightarrow> string"
  slice_error :: "pyval \<Rightarrow> exn"

definition py_format :: "py_lib \<Rightarrow> pyval \<Rightarrow> string" where
  "py_format lib v = (case v of PStr s \<Rightarrow> s | _ \<Rightarrow> fmt lib v)"

definition dict_get :: "pydict \<Rightarrow> string \<Rightarrow> pyval \<Rightarrow> pyval" where
  "dict_get d k dflt = (case map_of d k of None \<Rightarrow> dflt | Some v \<Rightarrow> v)"

subsection \<open>String methods\<close>

text \<open>
  A string is a list of 8-bit characters, the code points 0 to 255. Among them
  \<open>str.strip\<close> and \<open>str.split\<close> take as whitespace the ASCII ones and the code
  points 133 (next line) and 160 (no-break space). The case mappings are those of the
  ASCII letters.
\<close>

definition is_space :: "char \<Rightarrow> bool" where
  "is_space c = ((of_char c :: nat) \<in> {9, 10, 11, 12, 13, 28, 29, 30, 31, 32, 133, 160})"

definition is_upper :: "char \<Rightarrow> bool" where
  "is_upper c = (65 \<le> (of_char c :: nat) \<and> (of_char c :: nat) \<le> 90)"

definition is_lower :: "char \<Rightarrow> bool" where
  "is_lower c = (97 \<le> (of_char c :: nat) \<and> (of_char c :: nat) \<le> 122)"

definition lower_char :: "char \<Rightarrow> char" where
  "lower_char c = (if is_upper c then char_of ((of_char c :: nat) + 32) else c)"

definition upper_char :: "char \<Rightarrow> char" where
  "upper_char c = (if is_lower c then char_of ((of_char c :: nat) - 32) else c)"

definition py_lower :: "string \<Rightarrow> string" where
  "py_lower s = map lower_char s"

definition py_lstrip :: "string \<Rightarrow> string" where
  "py_lstrip s = dropWhile is_space s"

definition py_rstrip :: "string \<Rightarrow> string" where
  "py_rstrip s = rev (dropWhile is_space (rev s))"

definition py_strip :: "string \<Rightarrow> string" where
  "py_strip s = py_rstrip (py_lstrip s)"

section \<open>The audit team (audit\_team.py)\<close>

record audit_trail_entry =
  timestamp :: nat
  agent_id :: string
  action_type :: string
  action_description :: string
  decision_rationale :: "string option"
  evidence_refs :: "string list"
  metadata :: pydict

text \<open>
  \<open>AuditAgent\<close> of audit\_team.py. The time source (the \<open>TimeSimulator\<close>, or
  \<open>datetime.now()\<close> without one) is the function \<open>clock\<close> from the number of a
  reading to the time read; \<open>reads\<close> counts the readings taken so far. Console
  output (\<open>print\<close>, \<open>logger.info\<close>) is not modelled.
\<close>

record team_agent =
  name :: string
  clock :: "nat \<Rightarrow> nat"
  reads :: nat
  audit_trail :: "audit_trail_entry list"

record senior_auditor = team_agent +
  control_domains :: "string list"
  staff_auditor :: string

record staff_auditor_agent = team_agent +
  senior_auditor_name :: string

definition get_simulated_time :: "'a team_agent_scheme \<Rightarrow> nat \<times> 'a team_agent_scheme" where
  "get_simulated_time ag = (clock ag (reads ag), ag\<lparr>reads := Suc (reads ag)\<rparr>)"

definition log_action ::
  "string \<Rightarrow> string \<Rightarrow> string option \<Rightarrow> string list option \<Rightarrow> pydict option
    \<Rightarrow> 'a team_agent_scheme \<Rightarrow> audit_trail_entry \<times> 'a team_agent_scheme" where
  "log_action atype descr rationale refs meta ag =
     (let (t, ag1) = get_simulated_time ag;
          entry = \<lparr>timestamp = t, agent_id = name ag1, action_type = atype,
                   action_description = descr, decision_rationale = rationale,
                   evidence_refs = (case refs of None \<Rightarrow> [] | Some r \<Rightarrow> r),
                   metadata = (case meta of None \<Rightarrow> [] | Some m \<Rightarrow> m)\<rparr>
      in (entry, ag1\<lparr>audit_trail := audit_trail ag1 @ [entry]\<rparr>))"

subsection \<open>StaffAuditorAgent.collect\_evidence\<close>

text \<open>The returned \<open>Evidence\<close> is \<open>None\<close> on both paths: an \<open>option\<close>.\<close>

definition collect_evidence ::
  "string \<Rightarrow> bool \<Rightarrow> staff_auditor_agent \<Rightarrow> pydict option \<times> staff_auditor_agent" where
  "collect_evidence service has_assignment ag =
     (if \<not> has_assignment then
        (let (e, ag1) = log_action ''evidence_collection_blocked''
               (''Cannot collect evidence from '' @ service)
               (Some ''Staff must have an approved assignment before collecting evidence'')
               None None ag
         in (None, ag1))
      else
        (let (e1, ag1) = log_action ''collect_evidence''
               (''Collecting evidence from '' @ service)
               (Some (''Gathering evidence as assigned by '' @ senior_auditor_name ag))
               None None ag;
             (e2, ag2) = log_action ''evidence_collected''
               (''Evidence collected from '' @ service)
               None None
               (Some [(''service'', PStr service), (''collected_by'', PStr (name ag1))]) ag1
         in (None, ag2)))"

subsection \<open>SeniorAuditorAgent.supervise\_staff\<close>

definition supervise_staff ::
  "py_lib \<Rightarrow> pydict \<Rightarrow> bool \<Rightarrow> senior_auditor \<Rightarrow> pydict \<times> senior_auditor" where
  "supervise_staff lib task audit_plan_approved ag =
     (if \<not> audit_plan_approved then
        (let (e, ag1) = log_action ''task_assignment_blocked''
               (''Cannot assign task to '' @ staff_auditor ag @ '': ''
                  @ py_format lib (dict_get task ''description'' (PStr ''N/A'')))
               (Some ''Audit plan must be approved before assigning tasks to staff'')
               None None ag
         in ([(''assigned_by'', PStr (name ag1)),
              (''assigned_to'', PStr (staff_auditor ag1)),
              (''task'', PDict task),
              (''blocked'', PBool True),
              (''reason'', PStr ''Audit plan not approved'')], ag1))
      else
        (let (e, ag1) = log_action ''assign_task''
               (''Assigning task to '' @ staff_auditor ag @ '': ''
                  @ py_format lib (dict_get task ''description'' (PStr ''N/A'')))
               (Some (''Delegating evidence collection to '' @ staff_auditor ag
                  @ '' for efficiency''))
               None
               (Some [(''assigned_to'', PStr (staff_auditor ag)), (''task'', PDict task)]) ag;
             (t, ag2) = get_simulated_time ag1
         in ([(''assigned_by'', PStr (name ag2)),
              (''assigned_to'', PStr (staff_auditor ag2)),
              (''task'', PDict task),
              (''assigned_at'', PTime t),
              (''blocked'', PBool False),
              (''audit_plan_approved'', PBool audit_plan_approved)], ag2)))"

subsection \<open>AuditManagerAgent: the approval gate\<close>

text \<open>
  Of \<open>AuditPlan\<close> and \<open>RiskAssessment\<close> the records keep the fields that the
  review functions read or write outside \<open>print\<close>.
\<close>

record budget_allocation =
  total_hours :: real

record 'p audit_plan =
  procedures :: "'p list"
  budget :: budget_allocation
  approved :: bool
  approved_by :: "string option"
  approved_at :: "nat option"
  review_comments :: "string option"

record risk =
  risk_id :: string
  risk_level :: string

record risk_assessment =
  inherent_risks :: "risk list"
  residual_risks :: "risk list"
  ra_approved :: bool
  ra_approved_by :: "string option"
  ra_approved_at :: "nat option"
  ra_review_comments :: "string option"

definition eof_error :: exn where
  "eof_error = Exn ''EOFError'' ''EOF when reading a line''"

definition yes_words :: "string list" where
  "yes_words = [''yes'', ''y'', ''approve'', ''approved'']"

definition no_words :: "string list" where
  "no_words = [''no'', ''n'', ''reject'', ''rejected'']"

definition comment_words :: "string list" where
  "comment_words = [''comments'', ''comment'', ''c'']"

text \<open>
  The prompt loop of \<open>review_audit_plan\<close>. The operator's input is the list of
  lines that \<open>input()\<close> will return, in order; at its end \<open>input()\<close> raises
  EOFError. The result is what the call returns or raises, the plan and the agent as
  mutated, and the lines left unread.
\<close>

fun plan_prompt_loop ::
  "py_lib \<Rightarrow> string list \<Rightarrow> 'p audit_plan \<Rightarrow> team_agent
     \<Rightarrow> (exn + pydict) \<times> 'p audit_plan \<times> team_agent \<times> string list" where
  "plan_prompt_loop lib [] plan ag = (Inl eof_error, plan, ag, [])"
| "plan_prompt_loop lib (r # rest) plan ag =
     (let response = py_lower (py_strip r) in
      if response \<in> set yes_words then
        (let (t1, ag1) = get_simulated_time ag;
             plan1 = plan\<lparr>approved := True, approved_by := Some (name ag),
                       approved_at := Some t1,
                       review_comments := Some
                         ''Audit plan approved. Authorized to proceed with test execution.''\<rparr>;
             (t2, ag2) = get_simulated_time ag1;
             approval = [(''approved'', PBool True),
                         (''reviewer'', PStr (name ag)),
                         (''comments'', PStr
                            ''Audit plan is comprehensive and risk-based. Approved for execution.''),
                         (''reviewed_at'', PTime t2),
                         (''procedure_count'', PInt (int (length (procedures plan1)))),
                         (''total_hours'', PFloat (total_hours (budget plan1)))];
             (e, ag3) = log_action ''approve_audit_plan''
               (''Audit plan approved: '' @ fmt lib (PInt (int (length (procedures plan1))))
                  @ '' test procedures authorized for execution'')
               (Some ''Plan adequately addresses identified risks and test procedures are appropriate'')
               None None ag2
         in (Inr approval, plan1, ag3, rest))
      else if response \<in> set no_words then
        (case rest of
           [] \<Rightarrow> (Inl eof_error, plan, ag, [])
         | c # rest' \<Rightarrow>
            (let comments = py_strip c;
                 plan1 = plan\<lparr>approved := False, review_comments := Some comments\<rparr>;
                 (t1, ag1) = get_simulated_time ag;
                 approval = [(''approved'', PBool False),
                             (''reviewer'', PStr (name ag)),
                             (''comments'', PStr comments),
                             (''reviewed_at'', PTime t1),
                             (''action_required'', PStr ''Revise audit plan based on feedback'')];
                 (e, ag2) = log_action ''reject_audit_plan''
                   ''Audit plan requires revision''
                   (Some (''Feedback: '' @ comments)) None None ag1
             in (Inr approval, plan1, ag2, rest')))
      else if response \<in> set comment_words then
        (case rest of
           [] \<Rightarrow> (Inl eof_error, plan, ag, [])
         | c # rest' \<Rightarrow> plan_prompt_loop lib rest' plan ag)
      else plan_prompt_loop lib rest plan ag)"

definition review_audit_plan ::
  "py_lib \<Rightarrow> 'p audit_plan \<Rightarrow> string \<Rightarrow> bool \<Rightarrow> string list \<Rightarrow> team_agent
     \<Rightarrow> (exn + pydict) \<times> 'p audit_plan \<times> team_agent \<times> string list" where
  "review_audit_plan lib plan company_name interactive inputs ag =
     (let (e0, ag0) = log_action ''review_audit_plan''
            (''Reviewing audit plan for '' @ company_name @ '': ''
               @ fmt lib (PInt (int (length (procedures plan)))) @ '' test procedures, ''
               @ fmt lib (PFloat (total_hours (budget plan))) @ '' hours'')
            (Some ''Ensuring plan covers all high-risk areas and test procedures are appropriate before execution'')
            None None ag
      in if \<not> interactive then
           (let (t1, ag1) = get_simulated_time ag0;
                plan1 = plan\<lparr>approved := True, approved_by := Some (name ag),
                          approved_at := Some t1\<rparr>;
                (t2, ag2) = get_simulated_time ag1;
                approval = [(''approved'', PBool True),
                            (''reviewer'', PStr (name ag)),
                            (''comments'', PStr
                               ''Audit plan is comprehensive and risk-based. Approved for execution.''),
                            (''reviewed_at'', PTime t2)];
                (e, ag3) = log_action ''approve_audit_plan'' ''Audit plan approved''
                  (Some ''Plan adequately addresses identified risks and allocates resources appropriately'')
                  None None ag2
            in (Inr approval, plan1, ag3, inputs))
         else
           \<comment> \<open>the summary that is printed reads the clock once, for its date line\<close>
           (let (t, ag1) = get_simulated_time ag0
            in plan_prompt_loop lib inputs plan ag1))"

definition high_risk_count :: "risk_assessment \<Rightarrow> nat" where
  "high_risk_count ra = length (filter (\<lambda>r. risk_level r = ''high'') (residual_risks ra))"

definition approve_risk_assessment ::
  "py_lib \<Rightarrow> bool \<Rightarrow> risk_assessment \<Rightarrow> team_agent
     \<Rightarrow> pydict \<times> risk_assessment \<times> team_agent" where
  "approve_risk_assessment lib interactive ra ag =
     (let (t1, ag1) = get_simulated_time ag;
          ra0 = ra\<lparr>ra_approved := True, ra_approved_by := Some (name ag),
                  ra_approved_at := Some t1\<rparr>;
          ra1 = (if interactive
                 then ra0\<lparr>ra_review_comments := Some
                        ''Risk assessment approved. Proceed with audit planning.''\<rparr>
                 else ra0);
          (t2, ag2) = get_simulated_time ag1;
          review = [(''approved'', PBool True),
                    (''reviewer'', PStr (name ag)),
                    (''comments'', PStr
                       ''Risk assessment is comprehensive and appropriately prioritized. Approved to proceed with audit planning.''),
                    (''reviewed_at'', PTime t2),
                    (''high_risk_count'', PInt (int (high_risk_count ra))),
                    (''total_risk_count'', PInt (int (length (inherent_risks ra))))];
          (e, ag3) = log_action ''approve_risk_assessment''
            (''Risk assessment approved: '' @ fmt lib (PInt (int (high_risk_count ra)))
               @ '' high-risk areas will receive priority attention'')
            (Some ''Risk assessment provides solid foundation for risk-based audit planning'')
            None None ag2
      in (review, ra1, ag3))"

text \<open>
  The prompt loop of \<open>review_risk_assessment\<close>. Its approval branch and the
  non-interactive branch differ only in the review comment that the interactive one
  stores, so both go through \<open>approve_risk_assessment\<close>.
\<close>

fun risk_prompt_loop ::
  "py_lib \<Rightarrow> string list \<Rightarrow> risk_assessment \<Rightarrow> team_agent
     \<Rightarrow> (exn + pydict) \<times> risk_assessment \<times> team_agent \<times> string list" where
  "risk_prompt_loop lib [] ra ag = (Inl eof_error, ra, ag, [])"
| "risk_prompt_loop lib (r # rest) ra ag =
     (let response = py_lower (py_strip r) in
      if response \<in> set yes_words then
        (let (review, ra1, ag1) = approve_risk_assessment lib True ra ag
         in (Inr review, ra1, ag1, rest))
      else if response \<in> set no_words then
        (case rest of
           [] \<Rightarrow> (Inl eof_error, ra, ag, [])
         | c # rest' \<Rightarrow>
            (let comments = py_strip c;
                 ra1 = ra\<lparr>ra_approved := False, ra_review_comments := Some comments\<rparr>;
                 (t1, ag1) = get_simulated_time ag;
                 review = [(''approved'', PBool False),
                           (''reviewer'', PStr (name ag)),
                           (''comments'', PStr comments),
                           (''reviewed_at'', PTime t1),
                           (''action_required'', PStr ''Revise risk assessment based on feedback'')];
                 (e, ag2) = log_action ''reject_risk_assessment''
                   ''Risk assessment requires revision''
                   (Some (''Feedback: '' @ comments)) None None ag1
             in (Inr review, ra1, ag2, rest')))
      else if response \<in> set comment_words then
        (case rest of
           [] \<Rightarrow> (Inl eof_error, ra, ag, [])
         | c # rest' \<Rightarrow> risk_prompt_loop lib rest' ra ag)
      else risk_prompt_loop lib rest ra ag)"

definition review_risk_assessment ::
  "py_lib \<Rightarrow> risk_assessment \<Rightarrow> string \<Rightarrow> bool \<Rightarrow> string list \<Rightarrow> team_agent
     \<Rightarrow> (exn + pydict) \<times> risk_assessment \<times> team_agent \<times> string list" where
  "review_risk_assessment lib ra company_name interactive inputs ag =
     (let (e0, ag0) = log_action ''review_risk_assessment''
            (''Reviewing risk assessment for '' @ company_name @ '': ''
               @ fmt lib (PInt (int (length (inherent_risks ra)))) @ '' risks identified, ''
               @ fmt lib (PInt (int (high_risk_count ra))) @ '' high-risk'')
            (Some ''Ensuring risk assessment is comprehensive and prioritization is appropriate before creating audit plan'')
            None None ag
      in if \<not> interactive then
           (let (review, ra1, ag1) = approve_risk_assessment lib False ra ag0
            in (Inr review, ra1, ag1, inputs))
         else
           \<comment> \<open>the summary that is printed reads the clock once, for its date line\<close>
           (let (t, ag1) = get_simulated_time ag0
            in risk_prompt_loop lib inputs ra ag1))"

subsection \<open>Sequences of review calls\<close>

text \<open>
  A review call is its \<open>interactive\<close> flag and the lines the operator types during it.
  \<open>operator_decision\<close> is what those lines decide: it follows the branches of the
  prompt loops and nothing else. It is used to state which calls reject.
\<close>

datatype review_call = Review bool "string list"

datatype decision = Approves | Rejects string | Undecided

fun operator_decision :: "string list \<Rightarrow> decision" where
  "operator_decision [] = Undecided"
| "operator_decision (r # rest) =
     (let response = py_lower (py_strip r) in
      if response \<in> set yes_words then Approves
      else if response \<in> set no_words then
        (case rest of [] \<Rightarrow> Undecided | c # rest' \<Rightarrow> Rejects (py_strip c))
      else if response \<in> set comment_words then
        (case rest of [] \<Rightarrow> Undecided | c # rest' \<Rightarrow> operator_decision rest')
      else operator_decision rest)"

fun call_decision :: "review_call \<Rightarrow> decision" where
  "call_decision (Review interactive inputs) =
     (if \<not> interactive then Approves else operator_decision inputs)"

fun is_rejection :: "decision \<Rightarrow> bool" where
  "is_rejection (Rejects c) = True"
| "is_rejection d = False"

fun plan_review_call ::
  "py_lib \<Rightarrow> string \<Rightarrow> review_call \<Rightarrow> 'p audit_plan \<times> team_agent
     \<Rightarrow> 'p audit_plan \<times> team_agent" where
  "plan_review_call lib company_name (Review interactive inputs) (plan, ag) =
     (case review_audit_plan lib plan company_name interactive inputs ag of
        (res, plan', ag', rest) \<Rightarrow> (plan', ag'))"

fun risk_review_call ::
  "py_lib \<Rightarrow> string \<Rightarrow> review_call \<Rightarrow> risk_assessment \<times> team_agent
     \<Rightarrow> risk_assessment \<times> team_agent" where
  "risk_review_call lib company_name (Review interactive inputs) (ra, ag) =
     (case review_risk_assessment lib ra company_name interactive inputs ag of
        (res, ra', ag', rest) \<Rightarrow> (ra', ag'))"

section \<open>The reasoning agent (audit\_agent.py)\<close>

subsection \<open>More string methods\<close>

definition py_startswith :: "string \<Rightarrow> string \<Rightarrow> bool" where
  "py_startswith s p = (take (length p) s = p)"

text \<open>The offset of the first occurrence of \<open>sub\<close> in \<open>s\<close>, if there is one.\<close>

fun first_index :: "string \<Rightarrow> string \<Rightarrow> nat option" where
  "first_index sub [] = (if sub = [] then Some 0 else None)"
| "first_index sub (c # s) =
     (if py_startswith (c # s) sub then Some 0
      else (case first_index sub s of None \<Rightarrow> None | Some k \<Rightarrow> Some (Suc k)))"

text \<open>The offset of the last occurrence of \<open>sub\<close> in \<open>s\<close>, if there is one.\<close>

fun last_index :: "string \<Rightarrow> string \<Rightarrow> nat option" where
  "last_index sub [] = (if sub = [] then Some 0 else None)"
| "last_index sub (c # s) =
     (case last_index sub s of
        Some k \<Rightarrow> Some (Suc k)
      | None \<Rightarrow> (if py_startswith (c # s) sub then Some 0 else None))"

text \<open>
  \<open>s.find(sub, start)\<close> for \<open>0 \<le> start\<close>, \<open>s.rfind(sub)\<close>, \<open>sub in s\<close> and the
  slice \<open>s[i:j]\<close>; a negative slice bound counts from the end.
\<close>

definition py_find :: "string \<Rightarrow> string \<Rightarrow> nat \<Rightarrow> int" where
  "py_find s sub start =
     (if length s < start then - 1
      else (case first_index sub (drop start s) of
              None \<Rightarrow> - 1
            | Some k \<Rightarrow> int (start + k)))"

definition py_rfind :: "string \<Rightarrow> string \<Rightarrow> int" where
  "py_rfind s sub = (case last_index sub s of None \<Rightarrow> - 1 | Some k \<Rightarrow> int k)"

definition py_contains :: "string \<Rightarrow> string \<Rightarrow> bool" where
  "py_contains s sub = (first_index sub s \<noteq> None)"

definition slice_bound :: "nat \<Rightarrow> int \<Rightarrow> nat" where
  "slice_bound n i = (if i < 0 then nat (int n + i) else min n (nat i))"

definition py_slice :: "string \<Rightarrow> int \<Rightarrow> int \<Rightarrow> string" where
  "py_slice s i j =
     (let lo = slice_bound (length s) i; hi = slice_bound (length s) j
      in take (hi - lo) (drop lo s))"

definition is_alpha :: "char \<Rightarrow> bool" where
  "is_alpha c = (is_upper c \<or> is_lower c)"

text \<open>\<open>s.title()\<close>: a letter after a letter is lowered, any other letter is raised.\<close>

fun title_from :: "bool \<Rightarrow> string \<Rightarrow> string" where
  "title_from prev_cased [] = []"
| "title_from prev_cased (c # s) =
     (if is_alpha c
      then (if prev_cased then lower_char c else upper_char c) # title_from True s
      else c # title_from False s)"

definition py_title :: "string \<Rightarrow> string" where
  "py_title s = title_from False s"

definition py_replace_char :: "char \<Rightarrow> char \<Rightarrow> string \<Rightarrow> string" where
  "py_replace_char a b s = map (\<lambda>c. if c = a then b else c) s"

fun py_join :: "string \<Rightarrow> string list \<Rightarrow> string" where
  "py_join sep [] = []"
| "py_join sep [x] = x"
| "py_join sep (x # y # ys) = x @ sep @ py_join sep (y # ys)"

definition py_type_name :: "pyval \<Rightarrow> string" where
  "py_type_name v =
     (case v of PNone \<Rightarrow> ''NoneType'' | PBool b \<Rightarrow> ''bool'' | PInt i \<Rightarrow> ''int''
      | PFloat x \<Rightarrow> ''float'' | PStr s \<Rightarrow> ''str'' | PTime t \<Rightarrow> ''datetime''
      | PList l \<Rightarrow> ''list'' | PDict d \<Rightarrow> ''dict'')"

subsection \<open>Tools (the base class of tools.py)\<close>

text \<open>
  A tool's \<open>execute\<close> acts on the world outside the agent (files, services): it takes
  its keyword arguments and the world, and gives back its result, or the exception it
  raised, with the world after the call. The type \<open>'w\<close> of the world is left open.
\<close>

record tool_parameter =
  param_name :: string
  param_type :: string
  param_description :: string
  required :: bool
  default :: pyval

record 'w tool =
  tool_name :: string
  tool_description :: string
  parameters :: "tool_parameter list"
  execute :: "pydict \<Rightarrow> 'w \<Rightarrow> (exn + pyval) \<times> 'w"

fun parameter_properties :: "tool_parameter list \<Rightarrow> pydict \<Rightarrow> pydict" where
  "parameter_properties [] props = props"
| "parameter_properties (p # ps) props =
     parameter_properties ps
       (AList.update (param_name p)
          (PDict ([(''type'', PStr (param_type p)),
                   (''description'', PStr (param_description p))]
                  @ (if default p \<noteq> PNone then [(''default'', default p)] else [])))
          props)"

definition get_parameters :: "'w tool \<Rightarrow> pyval" where
  "get_parameters t =
     PDict [(''type'', PStr ''object''),
            (''properties'', PDict (parameter_properties (parameters t) [])),
            (''required'', PList (map (\<lambda>p. PStr (param_name p))
                                    (filter required (parameters t))))]"

subsection \<open>The agent\<close>

text \<open>
  A conversation message, an entry of the action history (its timestamp, a reading of the
  wall clock, is left out), and the reply of the model gateway.
\<close>

record message =
  role :: string
  content :: string

record agent_action =
  act_type :: string
  act_description :: string
  act_details :: pydict
  act_result :: pyval

record llm_response =
  response_content :: string
  response_model :: string
  tokens_used :: int
  cost :: real
  response_timestamp :: real

datatype goal_state = Idle | Working | Complete | Blocked

fun status_str :: "goal_state \<Rightarrow> string" where
  "status_str Idle = ''idle''"
| "status_str Working = ''working''"
| "status_str Complete = ''complete''"
| "status_str Blocked = ''blocked''"

text \<open>
  \<open>llm\<close> is the \<open>chat\<close> method of the agent's gateway client: from the conversation
  and the world to a reply or an exception, and the world after the call. \<open>tools\<close> and
  \<open>knowledge\<close> are dictionaries in insertion order.
\<close>

record 'w agent =
  agent_name :: string
  agent_role :: string
  llm :: "message list \<Rightarrow> 'w \<Rightarrow> (exn + llm_response) \<times> 'w"
  tools :: "(string \<times> 'w tool) list"
  knowledge :: "(string \<times> string) list"
  current_goal :: "string option"
  goal_status :: goal_state
  memory :: "message list"
  action_history :: "agent_action list"
  agent_context :: pydict

definition get_knowledge_context :: "'w agent \<Rightarrow> string" where
  "get_knowledge_context ag =
     (if knowledge ag = [] then ''No specialized knowledge loaded.''
      else ''## Your Knowledge and Procedures\<newline>\<newline>''
        @ ''You have access to the following procedures and guidelines:\<newline>\<newline>''
        @ concat (map (\<lambda>(n, c).
              ''### '' @ py_title (py_replace_char CHR ''-'' CHR '' '' n) @ ''\<newline>\<newline>''
              @ c @ ''\<newline>\<newline>''
              @ ''---\<newline>\<newline>'') (knowledge ag)))"

text \<open>
  \<open>_format_tools_for_prompt\<close>. \<open>json.dumps(v, indent=2)\<close> raises on a value that
  JSON cannot hold (a parameter's default may be one).
\<close>

fun format_tool_lines ::
  "py_lib \<Rightarrow> (string \<times> 'w tool) list \<Rightarrow> exn + string list" where
  "format_tool_lines lib [] = Inr []"
| "format_tool_lines lib ((n, t) # ts) =
     (case dumps_plain lib (get_parameters t) of
        Inl e \<Rightarrow> Inl e
      | Inr params \<Rightarrow>
         (case format_tool_lines lib ts of
            Inl e \<Rightarrow> Inl e
          | Inr ls \<Rightarrow>
             Inr ((''- '' @ n @ '': '' @ tool_description t @ ''\<newline>  Parameters: '' @ params)
                  # ls)))"

definition format_tools_for_prompt :: "py_lib \<Rightarrow> 'w agent \<Rightarrow> exn + string" where
  "format_tools_for_prompt lib ag =
     (if tools ag = [] then Inr ''No tools available''
      else (case format_tool_lines lib (tools ag) of
              Inl e \<Rightarrow> Inl e
            | Inr ls \<Rightarrow> Inr (py_join ''\<newline>'' ls)))"

definition system_message_text :: "'w agent \<Rightarrow> string \<Rightarrow> string" where
  \<open>system_message_text ag tools_txt =
     ''You are ''
     @ agent_name ag
     @ '', a ''
     @ agent_role ag
     @ ''.\<newline>''
     @ ''\<newline>''
     @ ''You are an autonomous audit agent. You reason independently, make decisions, \<newline>''
     @ ''and document your work professionally.\<newline>''
     @ ''\<newline>''
     @ ''Your capabilities:\<newline>''
     @ ''- Reason about audit goals and determine next steps\<newline>''
     @ ''- Use tools to collect evidence and analyze AWS infrastructure\<newline>''
     @ ''- Adapt your approach based on what you discover\<newline>''
     @ ''- Document your findings and reasoning in professional workpapers\<newline>''
     @ ''- Communicate with other agents when needed\<newline>''
     @ ''\<newline>''
     @ ''Available tools:\<newline>''
     @ tools_txt
     @ ''\<newline>''
     @ ''\<newline>''
     @ get_knowledge_context ag
     @ ''\<newline>''
     @ ''\<newline>''
     @ ''When you decide to use a tool, respond with a JSON object:\<newline>''
     @ ''{\<newline>''
     @ ''    "action": "use_tool",\<newline>''
     @ ''    "tool": "tool_name",\<newline>''
     @ ''    "parameters": {"param1": "value1", "param2": "value2"},\<newline>''
     @ ''    "reasoning": "Why you're using this tool"\<newline>''
     @ ''}\<newline>''
     @ ''\<newline>''
     @ ''When you've completed your goal, respond with:\<newline>''
     @ ''{\<newline>''
     @ ''    "action": "goal_complete",\<newline>''
     @ ''    "summary": "What you accomplished",\<newline>''
     @ ''    "next_steps": "Any recommendations or follow-up needed"\<newline>''
     @ ''}\<newline>''
     @ ''\<newline>''
     @ ''When you need to document findings, respond with:\<newline>''
     @ ''{\<newline>''
     @ ''    "action": "document",\<newline>''
     @ ''    "content": "Your findings and analysis",\<newline>''
     @ ''    "reasoning": "Your thought process"\<newline>''
     @ ''}\<newline>''
     @ ''\<newline>''
     @ ''Always explain your reasoning. Your thought process is as important as your actions.\<newline>''
     @ ''\<newline>''
     @ ''When following procedures from your knowledge base, reference which procedure you're using in your reasoning.\<newline>''\<close>

definition init_system_message :: "py_lib \<Rightarrow> 'w agent \<Rightarrow> exn option \<times> 'w agent" where
  "init_system_message lib ag =
     (case format_tools_for_prompt lib ag of
        Inl e \<Rightarrow> (Some e, ag)
      | Inr tools_txt \<Rightarrow>
         (None, ag\<lparr>memory := memory ag
                     @ [\<lparr>role = ''system'', content = system_message_text ag tools_txt\<rparr>]\<rparr>))"

definition register_tool :: "'w tool \<Rightarrow> 'w agent \<Rightarrow> 'w agent" where
  "register_tool t ag = ag\<lparr>tools := AList.update (tool_name t) t (tools ag)\<rparr>"

definition log_agent_action ::
  "string \<Rightarrow> string \<Rightarrow> pydict \<Rightarrow> pyval \<Rightarrow> 'w agent \<Rightarrow> 'w agent" where
  "log_agent_action atype descr details res ag =
     ag\<lparr>action_history := action_history ag
          @ [\<lparr>act_type = atype, act_description = descr, act_details = details,
               act_result = res\<rparr>]\<rparr>"

definition user_message :: "string \<Rightarrow> message" where
  "user_message txt = \<lparr>role = ''user'', content = txt\<rparr>"

definition assistant_message :: "string \<Rightarrow> message" where
  "assistant_message txt = \<lparr>role = ''assistant'', content = txt\<rparr>"

definition set_goal :: "string \<Rightarrow> 'w agent \<Rightarrow> 'w agent" where
  "set_goal goal ag =
     log_agent_action ''goal_set'' (''Goal set: '' @ goal) [(''goal'', PStr goal)] PNone
       (ag\<lparr>current_goal := Some goal,
            goal_status := Working,
            memory := memory ag
              @ [user_message (''Your goal: '' @ goal @ ''\<newline>\<newline>''
                   @ ''Think step by step about how to achieve this goal. What should you do first?'')]\<rparr>)"

definition reset :: "py_lib \<Rightarrow> 'w agent \<Rightarrow> exn option \<times> 'w agent" where
  "reset lib ag =
     init_system_message lib
       (ag\<lparr>current_goal := None, goal_status := Idle, memory := [],
            action_history := [], agent_context := []\<rparr>)"

subsection \<open>Reasoning: one model turn, parsed into a decision\<close>

definition parse_llm_response :: "py_lib \<Rightarrow> string \<Rightarrow> exn + pyval" where
  "parse_llm_response lib raw =
     (let content = py_strip raw in
      if py_contains content ''```json'' then
        (let start = py_find content ''```json'' 0 + 7;
             end_ix = py_find content ''```'' (nat start)
         in loads lib (py_strip (py_slice content start end_ix)))
      else if py_contains content ''```'' then
        (let start = py_find content ''```'' 0 + 3;
             end_ix = py_find content ''```'' (nat start)
         in loads lib (py_strip (py_slice content start end_ix)))
      else if py_startswith content ''{'' then loads lib content
      else
        (let start = py_find content ''{'' 0;
             end_ix = py_rfind content ''}'' + 1
         in if start \<ge> 0 \<and> end_ix > start then loads lib (py_slice content start end_ix)
            else Inl (Exn ''ValueError'' ''No JSON object found in response'')))"

definition clarification_msg :: string where
  "clarification_msg =
     ''Your response wasn't in the expected JSON format. \<newline>''
     @ ''Please respond with a valid JSON object specifying your action.''"

definition quoted :: "string \<Rightarrow> string" where
  "quoted s = [CHR 0x27] @ s @ [CHR 0x27]"

definition no_get_error :: "pyval \<Rightarrow> exn" where
  "no_get_error v =
     Exn ''AttributeError''
       (quoted (py_type_name v) @ '' object has no attribute '' @ quoted ''get'')"

text \<open>
  The end of \<open>reason\<close>: the decision is logged and returned. A parsed value that is
  not a dictionary has no \<open>get\<close>: the AttributeError leaves \<open>reason\<close>.
\<close>

definition log_reasoning ::
  "pyval \<Rightarrow> 'w agent \<Rightarrow> 'w \<Rightarrow> (exn + pyval) \<times> 'w agent \<times> 'w" where
  "log_reasoning decision ag w =
     (case decision of
        PDict d \<Rightarrow>
          (Inr decision,
           log_agent_action ''reason'' ''Agent reasoned about next action'' d
             (dict_get d ''reasoning'' (PStr [])) ag,
           w)
      | _ \<Rightarrow> (Inl (no_get_error decision), ag, w))"

definition reason :: "py_lib \<Rightarrow> 'w agent \<Rightarrow> 'w \<Rightarrow> (exn + pyval) \<times> 'w agent \<times> 'w" where
  "reason lib ag w =
     (if current_goal ag = None \<or> current_goal ag = Some [] then
        (Inl (Exn ''ValueError'' ''No goal set. Call set_goal() first.''), ag, w)
      else if goal_status ag \<noteq> Working then
        (Inl (Exn ''ValueError''
           (''Agent is not working (status: '' @ status_str (goal_status ag) @ '')'')), ag, w)
      else
        (case llm ag (memory ag) w of
           (Inl e, w1) \<Rightarrow> (Inl e, ag, w1)
         | (Inr response, w1) \<Rightarrow>
            (let ag1 = ag\<lparr>memory := memory ag
                          @ [assistant_message (response_content response)]\<rparr>
             in case parse_llm_response lib (response_content response) of
                  Inr decision \<Rightarrow> log_reasoning decision ag1 w1
                | Inl e \<Rightarrow>
                   (let ag2 = ag1\<lparr>memory := memory ag1 @ [user_message clarification_msg]\<rparr>
                    in case llm ag2 (memory ag2) w1 of
                         (Inl e2, w2) \<Rightarrow> (Inl e2, ag2, w2)
                       | (Inr response2, w2) \<Rightarrow>
                          (let ag3 = ag2\<lparr>memory := memory ag2
                                        @ [assistant_message (response_content response2)]\<rparr>
                           in case parse_llm_response lib (response_content response2) of
                                Inl e3 \<Rightarrow> (Inl e3, ag3, w2)
                              | Inr decision \<Rightarrow> log_reasoning decision ag3 w2)))))"

subsection \<open>Acting on a decision\<close>

definition tool_error_result :: "string \<Rightarrow> pyval" where
  "tool_error_result error_msg = PDict [(''error'', PStr error_msg)]"

text \<open>
  The membership test \<open>tool_name not in self.tools\<close> hashes the name: a list or a
  dictionary in its place raises TypeError. The keys of \<open>tools\<close> are strings, so any
  other value that is not a string is not among them.
\<close>

definition tool_lookup :: "(string \<times> 'w tool) list \<Rightarrow> pyval \<Rightarrow> exn + 'w tool option" where
  "tool_lookup ts tool_nm =
     (case tool_nm of
        PStr s \<Rightarrow> Inr (map_of ts s)
      | PList l \<Rightarrow> Inl (Exn ''TypeError'' (''unhashable type: '' @ quoted ''list''))
      | PDict d \<Rightarrow> Inl (Exn ''TypeError'' (''unhashable type: '' @ quoted ''dict''))
      | _ \<Rightarrow> Inr None)"

text \<open>The \<open>except Exception\<close> branch of \<open>_execute_tool\<close>.\<close>

definition tool_failed ::
  "py_lib \<Rightarrow> pyval \<Rightarrow> pyval \<Rightarrow> exn \<Rightarrow> 'w agent \<Rightarrow> 'w
     \<Rightarrow> (exn + pyval) \<times> 'w agent \<times> 'w" where
  "tool_failed lib tool_nm params e ag w =
     (let error_msg = ''Tool execution failed: '' @ exn_str e;
          ag1 = log_agent_action ''tool_call''
                  (''Tool call failed: '' @ py_format lib tool_nm)
                  [(''tool'', tool_nm), (''parameters'', params), (''error'', PStr (exn_str e))]
                  PNone ag
      in (Inr (tool_error_result error_msg),
          ag1\<lparr>memory := memory ag1 @ [user_message error_msg]\<rparr>, w))"

text \<open>
  \<open>_execute_tool\<close>. Inside its \<open>try\<close> are the call (\<open>**parameters\<close> needs a
  mapping), the logging of the result and the rendering of the result by
  \<open>json.dumps\<close>; whatever they raise goes to \<open>tool_failed\<close>.
\<close>

definition execute_tool ::
  "py_lib \<Rightarrow> pydict \<Rightarrow> 'w agent \<Rightarrow> 'w \<Rightarrow> (exn + pyval) \<times> 'w agent \<times> 'w" where
  "execute_tool lib decision ag w =
     (let tool_nm = dict_get decision ''tool'' PNone;
          params = dict_get decision ''parameters'' (PDict []);
          reasoning = dict_get decision ''reasoning'' (PStr [])
      in case tool_lookup (tools ag) tool_nm of
           Inl e \<Rightarrow> (Inl e, ag, w)
         | Inr None \<Rightarrow>
            (let error_msg = ''Tool '' @ quoted (py_format lib tool_nm)
                   @ '' not found. Available tools: ''
                   @ fmt lib (PList (map (\<lambda>(n, t). PStr n) (tools ag)))
             in (Inr (tool_error_result error_msg),
                 ag\<lparr>memory := memory ag @ [user_message error_msg]\<rparr>, w))
         | Inr (Some t) \<Rightarrow>
            (case params of
               PDict kwargs \<Rightarrow>
                 (case execute t kwargs w of
                    (Inl e, w1) \<Rightarrow> tool_failed lib tool_nm params e ag w1
                  | (Inr result, w1) \<Rightarrow>
                     (let ag1 = log_agent_action ''tool_call''
                                  (''Used tool: '' @ py_format lib tool_nm)
                                  [(''tool'', tool_nm), (''parameters'', params),
                                   (''reasoning'', reasoning)]
                                  result ag
                      in case dumps lib result of
                           Inl e \<Rightarrow> tool_failed lib tool_nm params e ag1 w1
                         | Inr txt \<Rightarrow>
                            (Inr result,
                             ag1\<lparr>memory := memory ag1
                                   @ [user_message
                                        (''Tool '' @ quoted (py_format lib tool_nm)
                                         @ '' executed successfully.\<newline>\<newline>Result:\<newline>''
                                         @ txt @ ''\<newline>\<newline>What should you do next?'')]\<rparr>,
                             w1)))
             | _ \<Rightarrow>
                 tool_failed lib tool_nm params
                   (Exn ''TypeError'' (unpack_error lib params)) ag w))"

definition complete_goal ::
  "pydict \<Rightarrow> 'w agent \<Rightarrow> 'w \<Rightarrow> (exn + pyval) \<times> 'w agent \<times> 'w" where
  "complete_goal decision ag w =
     (let summary = dict_get decision ''summary'' (PStr []);
          next_steps = dict_get decision ''next_steps'' (PStr []);
          ag1 = log_agent_action ''goal_complete'' ''Goal completed''
                  [(''summary'', summary), (''next_steps'', next_steps)] PNone
                  (ag\<lparr>goal_status := Complete\<rparr>)
      in (Inr (PDict [(''status'', PStr ''complete''), (''summary'', summary),
                      (''next_steps'', next_steps)]), ag1, w))"

definition document_work ::
  "pydict \<Rightarrow> 'w agent \<Rightarrow> 'w \<Rightarrow> (exn + pyval) \<times> 'w agent \<times> 'w" where
  "document_work decision ag w =
     (let doc = dict_get decision ''content'' (PStr []);
          reasoning = dict_get decision ''reasoning'' (PStr []);
          ag1 = log_agent_action ''document'' ''Documented work''
                  [(''content'', doc), (''reasoning'', reasoning)] PNone ag
      in (Inr (PDict [(''status'', PStr ''documented''), (''content'', doc),
                      (''reasoning'', reasoning)]), ag1, w))"

text \<open>
  \<open>_send_message\<close> prints the first hundred characters of the message after logging
  it; the slice \<open>message[:100]\<close> raises on a value that is neither a string nor a list.
\<close>

definition send_message ::
  "py_lib \<Rightarrow> pydict \<Rightarrow> 'w agent \<Rightarrow> 'w \<Rightarrow> (exn + pyval) \<times> 'w agent \<times> 'w" where
  "send_message lib decision ag w =
     (let recipient = dict_get decision ''to'' (PStr []);
          msg = dict_get decision ''message'' (PStr []);
          ag1 = log_agent_action ''message'' (''Sent message to '' @ py_format lib recipient)
                  [(''to'', recipient), (''message'', msg)] PNone ag
      in case msg of
           PStr s \<Rightarrow> (Inr (PDict [(''status'', PStr ''sent''), (''to'', recipient),
                                    (''message'', msg)]), ag1, w)
         | PList l \<Rightarrow> (Inr (PDict [(''status'', PStr ''sent''), (''to'', recipient),
                                     (''message'', msg)]), ag1, w)
         | _ \<Rightarrow> (Inl (slice_error lib msg), ag1, w))"

definition act :: "py_lib \<Rightarrow> pyval \<Rightarrow> 'w agent \<Rightarrow> 'w \<Rightarrow> (exn + pyval) \<times> 'w agent \<times> 'w" where
  "act lib decision ag w =
     (case decision of
        PDict d \<Rightarrow>
          (let action = dict_get d ''action'' PNone in
           if action = PStr ''use_tool'' then execute_tool lib d ag w
           else if action = PStr ''goal_complete'' then complete_goal d ag w
           else if action = PStr ''document'' then document_work d ag w
           else if action = PStr ''send_message'' then send_message lib d ag w
           else (Inl (Exn ''ValueError'' (''Unknown action type: '' @ py_format lib action)),
                 ag, w))
      | _ \<Rightarrow> (Inl (no_get_error decision), ag, w))"

subsection \<open>The autonomous loop\<close>

text \<open>
  The \<open>while\<close> loop of \<open>run_autonomously\<close>, from the value of \<open>iteration\<close> at the
  loop test to its value after the loop. The pause between iterations is not modelled.
\<close>

function run_loop ::
  "py_lib \<Rightarrow> int \<Rightarrow> int \<Rightarrow> 'w agent \<Rightarrow> 'w \<Rightarrow> int \<times> 'w agent \<times> 'w" where
  "run_loop lib max_iterations iteration ag w =
     (if goal_status ag = Working \<and> iteration < max_iterations then
        (case reason lib ag w of
           (Inl e, ag1, w1) \<Rightarrow> (iteration + 1, ag1\<lparr>goal_status := Blocked\<rparr>, w1)
         | (Inr decision, ag1, w1) \<Rightarrow>
            (case act lib decision ag1 w1 of
               (Inl e, ag2, w2) \<Rightarrow> (iteration + 1, ag2\<lparr>goal_status := Blocked\<rparr>, w2)
             | (Inr result, ag2, w2) \<Rightarrow>
                (case decision of
                   PDict d \<Rightarrow>
                     if dict_get d ''action'' PNone = PStr ''goal_complete''
                     then (iteration + 1, ag2, w2)
                     else run_loop lib max_iterations (iteration + 1) ag2 w2
                 | _ \<Rightarrow> (iteration + 1, ag2\<lparr>goal_status := Blocked\<rparr>, w2))))
      else (iteration, ag, w))"
  by pat_completeness auto
termination
  by (relation "measure (\<lambda>(lib, max_iterations, iteration, ag, w).
        nat (max_iterations - iteration))") auto

declare run_loop.simps [simp del]

definition run_autonomously ::
  "py_lib \<Rightarrow> int \<Rightarrow> 'w agent \<Rightarrow> 'w \<Rightarrow> (exn + pydict) \<times> 'w agent \<times> 'w" where
  "run_autonomously lib max_iterations ag w =
     (if current_goal ag = None \<or> current_goal ag = Some [] then
        (Inl (Exn ''ValueError'' ''No goal set. Call set_goal() first.''), ag, w)
      else
        (let (iteration, ag1, w1) = run_loop lib max_iterations 0 ag w;
             ag2 = (if iteration \<ge> max_iterations then ag1\<lparr>goal_status := Blocked\<rparr> else ag1)
         in (Inr [(''status'', PStr (status_str (goal_status ag2))),
                  (''iterations'', PInt iteration),
                  (''actions_taken'', PInt (int (length (action_history ag2))))],
             ag2, w1)))"

text \<open>
  The way the \<open>while\<close> loop of \<open>run_autonomously\<close> is left: by its test, by the
  \<open>break\<close> after a \<open>goal_complete\<close> decision, or by the \<open>break\<close> of the
  \<open>except\<close> branch, with the exception caught there.
\<close>

datatype loop_exit = Test_failed | Goal_completed | Raised exn

function run_exit :: "py_lib \<Rightarrow> int \<Rightarrow> int \<Rightarrow> 'w agent \<Rightarrow> 'w \<Rightarrow> loop_exit" where
  "run_exit lib max_iterations iteration ag w =
     (if goal_status ag = Working \<and> iteration < max_iterations then
        (case reason lib ag w of
           (Inl e, ag1, w1) \<Rightarrow> Raised e
         | (Inr decision, ag1, w1) \<Rightarrow>
            (case act lib decision ag1 w1 of
               (Inl e, ag2, w2) \<Rightarrow> Raised e
             | (Inr result, ag2, w2) \<Rightarrow>
                (case decision of
                   PDict d \<Rightarrow>
                     if dict_get d ''action'' PNone = PStr ''goal_complete''
                     then Goal_completed
                     else run_exit lib max_iterations (iteration + 1) ag2 w2
                 | _ \<Rightarrow> Raised (no_get_error decision))))
      else Test_failed)"
  by pat_completeness auto
termination
  by (relation "measure (\<lambda>(lib, max_iterations, iteration, ag, w).
        nat (max_iterations - iteration))") auto

declare run_exit.simps [simp del]

text \<open>
  The constructor: \<open>knowledge_files\<close> is what \<open>load_knowledge\<close> read from the
  knowledge folders (reading them is not modelled).
\<close>

definition new_agent ::
  "py_lib \<Rightarrow> string \<Rightarrow> string \<Rightarrow> (message list \<Rightarrow> 'w \<Rightarrow> (exn + llm_response) \<times> 'w)
     \<Rightarrow> 'w tool list \<Rightarrow> (string \<times> string) list \<Rightarrow> exn option \<times> 'w agent" where
  "new_agent lib nm rl client tool_list knowledge_files =
     init_system_message lib
       (fold register_tool tool_list
          \<lparr>agent_name = nm, agent_role = rl, llm = client, tools = [],
           knowledge = knowledge_files, current_goal = None, goal_status = Idle,
           memory = [], action_history = [], agent_context = []\<rparr>)"

subsection \<open>Adding a tool through the dashboard (agent\_dashboard.py)\<close>

text \<open>
  \<open>add_agent_tool\<close>, the one place that registers a tool on an agent that is already
  running, from the point where the tool has been made: the answer (the JSON object and
  the HTTP status) and the agent afterwards. The endpoint looks for the name among the
  agent's tools before it calls \<open>register_tool\<close>; an exception of
  \<open>_init_system_message\<close> is answered with status 500.
\<close>

definition add_agent_tool ::
  "py_lib \<Rightarrow> string \<Rightarrow> 'w tool \<Rightarrow> 'w agent \<Rightarrow> (pydict \<times> nat) \<times> 'w agent" where
  "add_agent_tool lib agent_nm t ag =
     (if tool_name t \<in> set (map fst (tools ag)) then
        (([(''error'', PStr (''Tool '' @ quoted (tool_name t) @ '' already exists on agent''))],
          400), ag)
      else
        (case init_system_message lib (register_tool t ag) of
           (Some e, ag1) \<Rightarrow> (([(''error'', PStr (exn_str e))], 500), ag1)
         | (None, ag1) \<Rightarrow>
            (([(''success'', PBool True),
               (''message'', PStr (''Tool '' @ quoted (tool_name t) @ '' added to '' @ agent_nm))],
              200), ag1)))"

section \<open>The model gateway (llm\_client.py)\<close>

text \<open>
  Times and costs are Python floats; they are modelled as real numbers, so rounding is
  left out. The wall clock is read through \<open>wall_clock\<close>, a function from the number of
  a reading to the time read (\<open>time.time()\<close> and \<open>datetime.now()\<close> alike), and
  \<open>wall_reads\<close> counts the readings taken.
\<close>

record rate_limiter =
  max_calls :: int
  recent_calls :: "real list"

record call_record =
  call_timestamp :: real
  call_model :: string
  call_tokens :: int
  call_cost :: real

record cost_tracker =
  total_cost :: real
  total_tokens :: int
  call_count :: int
  tracked_calls :: "call_record list"

datatype provider = OpenAI | Anthropic | Ollama

record llm_client =
  provider :: provider
  model :: string
  temperature :: real
  limiter :: rate_limiter
  tracker :: cost_tracker
  wall_clock :: "nat \<Rightarrow> real"
  wall_reads :: nat

definition read_clock :: "llm_client \<Rightarrow> real \<times> llm_client" where
  "read_clock c = (wall_clock c (wall_reads c), c\<lparr>wall_reads := Suc (wall_reads c)\<rparr>)"

text \<open>
  \<open>RateLimiter.wait_if_needed\<close> at time \<open>now\<close>: the limiter afterwards, with the pause
  it slept, if any. With no call on record and a limit that is not positive,
  \<open>self.calls[0]\<close> raises IndexError.
\<close>

definition wait_if_needed :: "real \<Rightarrow> rate_limiter \<Rightarrow> exn + (real option \<times> rate_limiter)" where
  "wait_if_needed now rl =
     (let kept = filter (\<lambda>t. now - t < 60) (recent_calls rl) in
      if int (length kept) \<ge> max_calls rl then
        (case kept of
           [] \<Rightarrow> Inl (Exn ''IndexError'' ''list index out of range'')
         | t # ts \<Rightarrow> Inr (Some (60 - (now - t)), rl\<lparr>recent_calls := kept @ [now]\<rparr>))
      else Inr (None, rl\<lparr>recent_calls := kept @ [now]\<rparr>))"

definition record_call :: "string \<Rightarrow> int \<Rightarrow> real \<Rightarrow> real \<Rightarrow> cost_tracker \<Rightarrow> cost_tracker" where
  "record_call mdl tokens cst now ct =
     ct\<lparr>total_cost := total_cost ct + cst,
        total_tokens := total_tokens ct + tokens,
        call_count := call_count ct + 1,
        tracked_calls := tracked_calls ct
          @ [\<lparr>call_timestamp = now, call_model = mdl, call_tokens = tokens, call_cost = cst\<rparr>]\<rparr>"

text \<open>The price table, per thousand tokens: input price, output price.\<close>

definition PRICING :: "(string \<times> real \<times> real) list" where
  "PRICING =
     [(''gpt-5'', 15 / 1000, 45 / 1000),
      (''gpt-4-turbo'', 1 / 100, 3 / 100),
      (''gpt-4o'', 5 / 1000, 15 / 1000),
      (''gpt-3.5-turbo'', 5 / 10000, 15 / 10000),
      (''claude-3-haiku'', 25 / 100000, 125 / 100000),
      (''ollama'', 0, 0)]"

definition pricing_get :: "string \<Rightarrow> string \<Rightarrow> real \<times> real" where
  "pricing_get mdl fallback =
     (case map_of PRICING mdl of
        Some p \<Rightarrow> p
      | None \<Rightarrow> (case map_of PRICING fallback of Some p \<Rightarrow> p | None \<Rightarrow> (0, 0)))"

text \<open>
  The provider's SDK is outside the repository: a backend is a function from the request
  sent to the reply received, or the exception raised. Of a reply the model keeps what
  the client reads from it.
\<close>

record provider_request =
  req_model :: string
  req_messages :: "message list"
  req_system :: "string option"
  req_max_tokens :: "int option"
  req_max_completion_tokens :: "int option"
  req_temperature :: "real option"

record provider_reply =
  reply_content :: string
  reply_model :: string
  input_tokens :: int
  output_tokens :: int
  reply_total_tokens :: int

type_synonym backend = "provider_request \<Rightarrow> exn + provider_reply"

definition chat_openai ::
  "backend \<Rightarrow> message list \<Rightarrow> int \<Rightarrow> llm_client \<Rightarrow> (exn + llm_response) \<times> llm_client" where
  "chat_openai be messages max_tokens c =
     (let request =
            (if py_startswith (model c) ''gpt-5''
             then \<lparr>req_model = model c, req_messages = messages, req_system = None,
                   req_max_tokens = None, req_max_completion_tokens = Some max_tokens,
                   req_temperature = None\<rparr>
             else \<lparr>req_model = model c, req_messages = messages, req_system = None,
                   req_max_tokens = Some max_tokens, req_max_completion_tokens = None,
                   req_temperature = Some (temperature c)\<rparr>)
      in case be request of
           Inl e \<Rightarrow> (Inl e, c)
         | Inr response \<Rightarrow>
            (let tokens = reply_total_tokens response;
                 (price_in, price_out) = pricing_get (model c) ''gpt-5'';
                 cst = real_of_int (input_tokens response) * price_in / 1000
                       + real_of_int (output_tokens response) * price_out / 1000;
                 (t1, c1) = read_clock c;
                 c2 = c1\<lparr>tracker := record_call (model c) tokens cst t1 (tracker c1)\<rparr>;
                 (t2, c3) = read_clock c2
             in (Inr \<lparr>response_content = reply_content response,
                      response_model = reply_model response,
                      tokens_used = tokens, cost = cst, response_timestamp = t2\<rparr>, c3)))"

text \<open>
  The conversion of the conversation for Claude: the last system message becomes the
  system prompt, the other messages are passed on.
\<close>

definition last_system_message :: "message list \<Rightarrow> string option" where
  "last_system_message messages =
     (case filter (\<lambda>m. role m = ''system'') messages of
        [] \<Rightarrow> None
      | m # ms \<Rightarrow> Some (content (last (m # ms))))"

definition chat_anthropic ::
  "backend \<Rightarrow> message list \<Rightarrow> int \<Rightarrow> llm_client \<Rightarrow> (exn + llm_response) \<times> llm_client" where
  "chat_anthropic be messages max_tokens c =
     (let request = \<lparr>req_model = model c,
                     req_messages = filter (\<lambda>m. role m \<noteq> ''system'') messages,
                     req_system = last_system_message messages,
                     req_max_tokens = Some max_tokens, req_max_completion_tokens = None,
                     req_temperature = Some (temperature c)\<rparr>
      in case be request of
           Inl e \<Rightarrow> (Inl e, c)
         | Inr response \<Rightarrow>
            (let tokens = input_tokens response + output_tokens response;
                 (price_in, price_out) = pricing_get (model c) ''claude-3-haiku'';
                 cst = real_of_int (input_tokens response) * price_in / 1000
                       + real_of_int (output_tokens response) * price_out / 1000;
                 (t1, c1) = read_clock c;
                 c2 = c1\<lparr>tracker := record_call (model c) tokens cst t1 (tracker c1)\<rparr>;
                 (t2, c3) = read_clock c2
             in (Inr \<lparr>response_content = reply_content response,
                      response_model = model c,
                      tokens_used = tokens, cost = cst, response_timestamp = t2\<rparr>, c3)))"

text \<open>\<open>s.split()\<close>: the words of \<open>s\<close>, separated by runs of whitespace.\<close>

fun split_ws :: "string \<Rightarrow> string \<Rightarrow> string list" where
  "split_ws cur [] = (if cur = [] then [] else [cur])"
| "split_ws cur (c # s) =
     (if is_space c then (if cur = [] then split_ws [] s else cur # split_ws [] s)
      else split_ws (cur @ [c]) s)"

definition py_split_ws :: "string \<Rightarrow> string list" where
  "py_split_ws s = split_ws [] s"

text \<open>
  \<open>_chat_ollama\<close>. The token estimate \<open>int(len(content.split()) * 1.3)\<close> is taken
  with exact arithmetic.
\<close>

definition chat_ollama ::
  "backend \<Rightarrow> message list \<Rightarrow> int \<Rightarrow> llm_client \<Rightarrow> (exn + llm_response) \<times> llm_client" where
  "chat_ollama be messages max_tokens c =
     (let request = \<lparr>req_model = model c, req_messages = messages, req_system = None,
                     req_max_tokens = None, req_max_completion_tokens = None,
                     req_temperature = None\<rparr>
      in case be request of
           Inl e \<Rightarrow> (Inl e, c)
         | Inr response \<Rightarrow>
            (let tokens = (int (length (py_split_ws (reply_content response))) * 13) div 10;
                 (t1, c1) = read_clock c
             in (Inr \<lparr>response_content = reply_content response,
                      response_model = model c,
                      tokens_used = tokens, cost = 0, response_timestamp = t1\<rparr>, c1)))"

definition chat ::
  "backend \<Rightarrow> message list \<Rightarrow> int \<Rightarrow> llm_client \<Rightarrow> (exn + llm_response) \<times> llm_client" where
  "chat be messages max_tokens c =
     (let (now, c1) = read_clock c in
      case wait_if_needed now (limiter c1) of
        Inl e \<Rightarrow> (Inl e, c1)
      | Inr (slept, rl) \<Rightarrow>
         (let c2 = c1\<lparr>limiter := rl\<rparr> in
          case provider c2 of
            OpenAI \<Rightarrow> chat_openai be messages max_tokens c2
          | Anthropic \<Rightarrow> chat_anthropic be messages max_tokens c2
          | Ollama \<Rightarrow> chat_ollama be messages max_tokens c2))"

text \<open>A new client (the constructor's check of the API key is not modelled).\<close>

definition new_client :: "provider \<Rightarrow> string \<Rightarrow> int \<Rightarrow> real \<Rightarrow> (nat \<Rightarrow> real) \<Rightarrow> llm_client" where
  "new_client p mdl rate_limit temp clk =
     \<lparr>provider = p, model = mdl, temperature = temp,
      limiter = \<lparr>max_calls = rate_limit, recent_calls = []\<rparr>,
      tracker = \<lparr>total_cost = 0, total_tokens = 0, call_count = 0, tracked_calls = []\<rparr>,
      wall_clock = clk, wall_reads = 0\<rparr>"

section \<open>The task ledger (TaskManagementTool of tools.py)\<close>

subsection \<open>The files\<close>




subsection \<open>Splitting text\<close>




subsection \<open>The ledger format\<close>






subsection \<open>Reading a ledger\<close>


record task_lists =
  current :: "string list"
  completed :: "string list"
  delegated :: "string list"







subsection \<open>assign\_task\<close>






subsection \<open>Ledgers that take a new entry\<close>





section \<open>Fixtures\<close>

text \<open>Concrete values at which the theorems below are evaluated.\<close>

definition stub_lib :: py_lib where
  "stub_lib = \<lparr>fmt = (\<lambda>v. ''?''),
               loads = (\<lambda>s. Inl (Exn ''JSONDecodeError'' ''Expecting value'')),
               dumps = (\<lambda>v. Inr ''{}''),
               dumps_plain = (\<lambda>v. Inr ''{}''),
               unpack_error = (\<lambda>v. ''argument after ** must be a mapping''),
               slice_error = (\<lambda>v. Exn ''TypeError'' ''object is not subscriptable'')\<rparr>"

definition maurice :: team_agent where
  "maurice = \<lparr>name = ''Maurice'', clock = (\<lambda>n. n), reads = 0, audit_trail = []\<rparr>"

definition esther :: senior_auditor where
  "esther = \<lparr>name = ''Esther'', clock = (\<lambda>n. n), reads = 0, audit_trail = [],
              control_domains = [''IAM''], staff_auditor = ''Hillel''\<rparr>"

definition iam_task :: pydict where
  "iam_task = [(''description'', PStr ''Collect IAM evidence''), (''service'', PStr ''IAM'')]"

definition approved_plan :: "string audit_plan" where
  "approved_plan = \<lparr>procedures = [''PROC-001''], budget = \<lparr>total_hours = 4\<rparr>,
                     approved = True, approved_by = Some ''Maurice'', approved_at = Some 1,
                     review_comments = None\<rparr>"

definition approved_assessment :: risk_assessment where
  "approved_assessment = \<lparr>inherent_risks = [], residual_risks = [],
                           ra_approved = True, ra_approved_by = Some ''Maurice'',
                           ra_approved_at = Some 1, ra_review_comments = None\<rparr>"

text \<open>
  Model stubs. \<open>reply_stub txt\<close> always answers \<open>txt\<close>; \<open>counted client\<close> is
  \<open>client\<close> with a count of the calls made to it next to its world.
\<close>

definition reply_stub :: "string \<Rightarrow> message list \<Rightarrow> 'w \<Rightarrow> (exn + llm_response) \<times> 'w" where
  "reply_stub txt conversation w =
     (Inr \<lparr>response_content = txt, response_model = ''test-model'', tokens_used = 10,
           cost = 0, response_timestamp = 0\<rparr>, w)"

definition counted ::
  "(message list \<Rightarrow> 'w \<Rightarrow> (exn + llm_response) \<times> 'w)
     \<Rightarrow> message list \<Rightarrow> 'w \<times> nat \<Rightarrow> (exn + llm_response) \<times> ('w \<times> nat)" where
  "counted client conversation wn =
     (case client conversation (fst wn) of (r, w') \<Rightarrow> (r, (w', Suc (snd wn))))"

definition complete_reply :: string where
  \<open>complete_reply = ''{"action": "goal_complete", "summary": "done"}''\<close>

definition complete_decision :: pyval where
  "complete_decision = PDict [(''action'', PStr ''goal_complete''), (''summary'', PStr ''done'')]"

text \<open>A \<open>json.loads\<close> that knows the one reply of the stub.\<close>

definition json_lib :: py_lib where
  "json_lib = stub_lib\<lparr>loads := (\<lambda>s. if s = complete_reply then Inr complete_decision
                                    else Inl (Exn ''JSONDecodeError'' ''Expecting value''))\<rparr>"

definition test_agent :: "(message list \<Rightarrow> 'w \<Rightarrow> (exn + llm_response) \<times> 'w) \<Rightarrow> 'w agent" where
  "test_agent client =
     \<lparr>agent_name = ''TestAgent'', agent_role = ''Test Auditor'', llm = client, tools = [],
      knowledge = [], current_goal = None, goal_status = Idle,
      memory = [\<lparr>role = ''system'', content = ''You are TestAgent, a Test Auditor.''\<rparr>],
      action_history = [], agent_context = []\<rparr>"

definition failing_tool :: "unit tool" where
  "failing_tool =
     \<lparr>tool_name = ''failing_tool'', tool_description = ''A tool that fails'', parameters = [],
      execute = (\<lambda>kwargs w. (Inl (Exn ''ValueError'' ''Tool failed''), w))\<rparr>"

definition test_tool :: "unit tool" where
  "test_tool =
     \<lparr>tool_name = ''test_tool'', tool_description = ''A test tool'', parameters = [],
      execute = (\<lambda>kwargs w. (Inr (PDict [(''result'', PStr ''success'')]), w))\<rparr>"

definition test_tool_again :: "unit tool" where
  "test_tool_again =
     \<lparr>tool_name = ''test_tool'', tool_description = ''Another tool of the same name'',
      parameters = [],
      execute = (\<lambda>kwargs w. (Inr (PDict [(''result'', PStr ''other'')]), w))\<rparr>"

definition tooled_agent :: "unit agent" where
  "tooled_agent = set_goal ''g'' (register_tool failing_tool (test_agent (reply_stub ''x'')))"

text \<open>
  Replies that are JSON and their values, for a \<open>json.loads\<close> that knows them: an
  object that is no decision, a list inside a code fence, and a \<open>document\<close> decision.
\<close>

definition foo_reply :: string where
  \<open>foo_reply = ''{"foo": 1}''\<close>

definition list_reply :: string where
  "list_reply = ''```\<newline>[1, 2]\<newline>```''"

definition document_reply :: string where
  \<open>document_reply = ''{"action": "document", "content": "notes"}''\<close>

definition loose_lib :: py_lib where
  "loose_lib = stub_lib\<lparr>loads := (\<lambda>s.
       if s = foo_reply then Inr (PDict [(''foo'', PInt 1)])
       else if s = ''[1, 2]'' then Inr (PList [PInt 1, PInt 2])
       else if s = document_reply
       then Inr (PDict [(''action'', PStr ''document''), (''content'', PStr ''notes'')])
       else Inl (Exn ''JSONDecodeError'' ''Expecting value''))\<rparr>"

text \<open>A working agent whose stub always answers the same text, with its calls counted.\<close>

definition replying_agent :: "string \<Rightarrow> (unit \<times> nat) agent" where
  "replying_agent reply = set_goal ''g'' (test_agent (counted (reply_stub reply)))"

text \<open>An agent that has a goal and has completed it.\<close>

definition completed_agent :: "unit agent" where
  "completed_agent = (set_goal ''g'' (test_agent (reply_stub ''x'')))\<lparr>goal_status := Complete\<rparr>"

text \<open>A rendering of values that knows the list of the tool names of \<open>tooled_agent\<close>.\<close>

definition names_lib :: py_lib where
  "names_lib = stub_lib\<lparr>fmt := (\<lambda>v. if v = PList [PStr ''failing_tool'']
                                   then ''['failing_tool']'' else ''?'')\<rparr>"

text \<open>A backend that always answers, and a clock that reads 0, 1, 2, ...\<close>

definition ok_backend :: backend where
  "ok_backend request =
     Inr \<lparr>reply_content = ''All controls look fine'', reply_model = req_model request,
          input_tokens = 1000, output_tokens = 2000, reply_total_tokens = 3000\<rparr>"

definition tick :: "nat \<Rightarrow> real" where
  "tick n = real n"



section \<open>Properties\<close>

lemma log_action_trail:
  "audit_trail (snd (log_action atype descr rationale refs meta ag)) =
     audit_trail ag @ [fst (log_action atype descr rationale refs meta ag)]"
  by (simp add: log_action_def get_simulated_time_def Let_def)

lemma log_action_type:
  "action_type (fst (log_action atype descr rationale refs meta ag)) = atype"
  by (simp add: log_action_def get_simulated_time_def Let_def)

text \<open>
  C10. \<open>collect_evidence\<close> returns \<open>None\<close> whether or not the staff auditor has an
  assignment; the two cases differ only in what is logged: one
  \<open>evidence_collection_blocked\<close> entry when blocked, a \<open>collect_evidence\<close> entry
  followed by an \<open>evidence_collected\<close> entry otherwise.
\<close>

theorem collect_evidence_returns_None:
  "fst (collect_evidence service has_assignment ag) = None
   \<and> map action_type (audit_trail (snd (collect_evidence service False ag))) =
       map action_type (audit_trail ag) @ [''evidence_collection_blocked'']
   \<and> map action_type (audit_trail (snd (collect_evidence service True ag))) =
       map action_type (audit_trail ag) @ [''collect_evidence'', ''evidence_collected'']"
  by (simp add: collect_evidence_def log_action_def get_simulated_time_def Let_def)

text \<open>
  C7 (as amended). With \<open>audit_plan_approved = False\<close>, \<open>supervise_staff\<close> logs one
  \<open>task_assignment_blocked\<close> entry and returns a result with \<open>blocked = True\<close> and
  reason \<open>Audit plan not approved\<close>. With \<open>audit_plan_approved = True\<close> it logs one
  \<open>assign_task\<close> entry and returns the assignment record (assigned\_by, assigned\_to,
  task, assigned\_at, \<open>blocked = False\<close>, \<open>audit_plan_approved = True\<close>). In both
  cases the audit trail and the count of clock readings are the only state that changes:
  the senior auditor holds no task ledger, and no TaskEntry is written on either branch.
\<close>

theorem supervise_staff_gate:
  "map_of (fst (supervise_staff lib task False ag)) ''blocked'' = Some (PBool True)
   \<and> map_of (fst (supervise_staff lib task False ag)) ''reason''
       = Some (PStr ''Audit plan not approved'')
   \<and> map action_type (audit_trail (snd (supervise_staff lib task False ag)))
       = map action_type (audit_trail ag) @ [''task_assignment_blocked'']
   \<and> (snd (supervise_staff lib task False ag))\<lparr>reads := reads ag, audit_trail := audit_trail ag\<rparr>
       = ag
   \<and> fst (supervise_staff lib task True ag)
       = [(''assigned_by'', PStr (name ag)),
          (''assigned_to'', PStr (staff_auditor ag)),
          (''task'', PDict task),
          (''assigned_at'', PTime (clock ag (Suc (reads ag)))),
          (''blocked'', PBool False),
          (''audit_plan_approved'', PBool True)]
   \<and> map action_type (audit_trail (snd (supervise_staff lib task True ag)))
       = map action_type (audit_trail ag) @ [''assign_task'']
   \<and> (snd (supervise_staff lib task True ag))\<lparr>reads := reads ag, audit_trail := audit_trail ag\<rparr>
       = ag"
  by (simp add: supervise_staff_def log_action_def get_simulated_time_def Let_def)

text \<open>
  C7, counterexample to the claim as stated (the approved branch "creates a TaskEntry"):
  the whole effect of an approved call is the returned assignment record and one audit
  trail entry. The record carries neither priority nor status, and nothing is appended to
  a Current or Delegated section of any ledger.
\<close>

theorem supervise_staff_creates_no_task_entry:
  "supervise_staff stub_lib iam_task True esther =
     ([(''assigned_by'', PStr ''Esther''),
       (''assigned_to'', PStr ''Hillel''),
       (''task'', PDict iam_task),
       (''assigned_at'', PTime 1),
       (''blocked'', PBool False),
       (''audit_plan_approved'', PBool True)],
      esther\<lparr>reads := 2,
             audit_trail :=
               [\<lparr>timestamp = 0, agent_id = ''Esther'', action_type = ''assign_task'',
                 action_description = ''Assigning task to Hillel: Collect IAM evidence'',
                 decision_rationale =
                   Some ''Delegating evidence collection to Hillel for efficiency'',
                 evidence_refs = [],
                 metadata = [(''assigned_to'', PStr ''Hillel''), (''task'', PDict iam_task)]\<rparr>]\<rparr>)"
  by (simp add: supervise_staff_def log_action_def get_simulated_time_def Let_def esther_def
      iam_task_def py_format_def dict_get_def numeral_2_eq_2)

subsection \<open>The approval gate\<close>

text \<open>
  After a review call the approved flag is what the call decided; a call that ends without
  a decision (the operator's input ran out) leaves it as it was.
\<close>

lemma plan_prompt_loop_approved:
  "approved (fst (snd (plan_prompt_loop lib inputs plan ag))) =
     (case operator_decision inputs of
        Approves \<Rightarrow> True | Rejects c \<Rightarrow> False | Undecided \<Rightarrow> approved plan)"
  by (induction inputs arbitrary: plan ag rule: operator_decision.induct)
     (auto simp: Let_def split: list.splits prod.splits)

lemma risk_prompt_loop_approved:
  "ra_approved (fst (snd (risk_prompt_loop lib inputs ra ag))) =
     (case operator_decision inputs of
        Approves \<Rightarrow> True | Rejects c \<Rightarrow> False | Undecided \<Rightarrow> ra_approved ra)"
  by (induction inputs arbitrary: ra ag rule: operator_decision.induct)
     (auto simp: Let_def approve_risk_assessment_def split: list.splits prod.splits)

lemma plan_review_call_approved:
  "approved (fst (plan_review_call lib co c (plan, ag))) =
     (case call_decision c of
        Approves \<Rightarrow> True | Rejects x \<Rightarrow> False | Undecided \<Rightarrow> approved plan)"
proof (cases c)
  case (Review interactive inputs)
  show ?thesis
  proof (cases interactive)
    case True
    with Review show ?thesis
      using plan_prompt_loop_approved [of lib inputs plan]
      by (simp add: review_audit_plan_def log_action_def get_simulated_time_def Let_def
          split: prod.splits) (metis fst_conv snd_conv)
  next
    case False
    with Review show ?thesis
      by (simp add: review_audit_plan_def log_action_def get_simulated_time_def Let_def)
  qed
qed

lemma risk_review_call_approved:
  "ra_approved (fst (risk_review_call lib co c (ra, ag))) =
     (case call_decision c of
        Approves \<Rightarrow> True | Rejects x \<Rightarrow> False | Undecided \<Rightarrow> ra_approved ra)"
proof (cases c)
  case (Review interactive inputs)
  show ?thesis
  proof (cases interactive)
    case True
    with Review show ?thesis
      using risk_prompt_loop_approved [of lib inputs ra]
      by (simp add: review_risk_assessment_def log_action_def get_simulated_time_def Let_def
          split: prod.splits) (metis fst_conv snd_conv)
  next
    case False
    with Review show ?thesis
      by (simp add: review_risk_assessment_def approve_risk_assessment_def log_action_def
          get_simulated_time_def Let_def)
  qed
qed

lemma plan_reviews_keep_approval:
  "approved (fst st) \<Longrightarrow> \<forall>c\<in>set calls. \<not> is_rejection (call_decision c)
     \<Longrightarrow> approved (fst (fold (plan_review_call lib co) calls st))"
proof (induction calls arbitrary: st)
  case Nil
  then show ?case by simp
next
  case (Cons c calls)
  obtain plan ag where st: "st = (plan, ag)" by (cases st)
  have "approved (fst (plan_review_call lib co c (plan, ag)))"
    using Cons.prems st
    by (cases "call_decision c") (simp_all add: plan_review_call_approved)
  with Cons show ?case by (simp add: st)
qed

lemma risk_reviews_keep_approval:
  "ra_approved (fst st) \<Longrightarrow> \<forall>c\<in>set calls. \<not> is_rejection (call_decision c)
     \<Longrightarrow> ra_approved (fst (fold (risk_review_call lib co) calls st))"
proof (induction calls arbitrary: st)
  case Nil
  then show ?case by simp
next
  case (Cons c calls)
  obtain ra ag where st: "st = (ra, ag)" by (cases st)
  have "ra_approved (fst (risk_review_call lib co c (ra, ag)))"
    using Cons.prems st
    by (cases "call_decision c") (simp_all add: risk_review_call_approved)
  with Cons show ?case by (simp add: st)
qed

text \<open>
  C1 (as amended). An approved audit plan or risk assessment stays approved through every
  sequence of review calls in which no interactive session ends with the operator's
  rejection; a review call in which the operator rejects sets the approved flag of that
  same instance to false, whatever it was before.
\<close>

theorem approval_kept_unless_rejected:
  "(approved plan \<and> (\<forall>c\<in>set calls. \<not> is_rejection (call_decision c))
      \<longrightarrow> approved (fst (fold (plan_review_call lib co) calls (plan, ag))))
   \<and> (ra_approved ra \<and> (\<forall>c\<in>set calls. \<not> is_rejection (call_decision c))
      \<longrightarrow> ra_approved (fst (fold (risk_review_call lib co) calls (ra, ag))))
   \<and> (is_rejection (call_decision c)
      \<longrightarrow> \<not> approved (fst (plan_review_call lib co c (plan, ag)))
        \<and> \<not> ra_approved (fst (risk_review_call lib co c (ra, ag))))"
proof (intro conjI impI)
  assume "approved plan \<and> (\<forall>c\<in>set calls. \<not> is_rejection (call_decision c))"
  then show "approved (fst (fold (plan_review_call lib co) calls (plan, ag)))"
    using plan_reviews_keep_approval [of "(plan, ag)" calls lib co] by simp
next
  assume "ra_approved ra \<and> (\<forall>c\<in>set calls. \<not> is_rejection (call_decision c))"
  then show "ra_approved (fst (fold (risk_review_call lib co) calls (ra, ag)))"
    using risk_reviews_keep_approval [of "(ra, ag)" calls lib co] by simp
next
  assume "is_rejection (call_decision c)"
  then show "\<not> approved (fst (plan_review_call lib co c (plan, ag)))"
    by (cases "call_decision c") (simp_all add: plan_review_call_approved)
next
  assume "is_rejection (call_decision c)"
  then show "\<not> ra_approved (fst (risk_review_call lib co c (ra, ag)))"
    by (cases "call_decision c") (simp_all add: risk_review_call_approved)
qed

text \<open>What two operator sessions decide.\<close>

lemma decide1: "operator_decision [''comment'', ''looks fine'', '' YES ''] = Approves"
  by code_simp

lemma decide2: "operator_decision [''no'', ''needs more IAM coverage''] = Rejects ''needs more IAM coverage''"
  by code_simp

text \<open>
  C1, witness: an approved plan and an approved assessment, reviewed non-interactively and
  then interactively with a comment followed by \<open>YES\<close>, stay approved; one interactive
  review answered \<open>no\<close> revokes each.
\<close>

theorem approval_kept_unless_rejected_witness:
  "approved approved_plan
   \<and> ra_approved approved_assessment
   \<and> call_decision (Review False []) = Approves
   \<and> call_decision (Review True [''comment'', ''looks fine'', '' YES '']) = Approves
   \<and> call_decision (Review True [''no'', ''needs more IAM coverage''])
       = Rejects ''needs more IAM coverage''
   \<and> approved (fst (fold (plan_review_call stub_lib ''CloudRetail'')
         [Review False [], Review True [''comment'', ''looks fine'', '' YES '']]
         (approved_plan, maurice)))
   \<and> ra_approved (fst (fold (risk_review_call stub_lib ''CloudRetail'')
         [Review False [], Review True [''comment'', ''looks fine'', '' YES '']]
         (approved_assessment, maurice)))
   \<and> \<not> approved (fst (plan_review_call stub_lib ''CloudRetail''
         (Review True [''no'', ''needs more IAM coverage'']) (approved_plan, maurice)))
   \<and> \<not> ra_approved (fst (risk_review_call stub_lib ''CloudRetail''
         (Review True [''no'', ''needs more IAM coverage'']) (approved_assessment, maurice)))"
proof -
  let ?calls = "[Review False [], Review True [''comment'', ''looks fine'', '' YES '']]"
  let ?c = "Review True [''no'', ''needs more IAM coverage'']"
  have a: "approved approved_plan" and b: "ra_approved approved_assessment"
    by (simp_all add: approved_plan_def approved_assessment_def)
  have d0: "call_decision (Review False []) = Approves" by simp
  have d1: "call_decision (Review True [''comment'', ''looks fine'', '' YES '']) = Approves"
    by (simp add: decide1 del: operator_decision.simps)
  have d2: "call_decision ?c = Rejects ''needs more IAM coverage''"
    by (simp add: decide2 del: operator_decision.simps)
  have ok: "\<forall>c\<in>set ?calls. \<not> is_rejection (call_decision c)"
    using d0 d1 by (simp del: call_decision.simps)
  have rej: "is_rejection (call_decision ?c)"
    using d2 by (simp del: call_decision.simps)
  from approval_kept_unless_rejected [of approved_plan ?calls stub_lib "''CloudRetail''"
      maurice approved_assessment ?c] a b ok rej d0 d1 d2
  show ?thesis by blast
qed

text \<open>
  C1, counterexample to the claim as stated: an approved instance reviewed once more,
  interactively, with the answer \<open>no\<close>, has its approved flag back at false.
\<close>

theorem approval_is_not_terminal:
  "approved approved_plan
   \<and> \<not> approved (fst (snd (review_audit_plan stub_lib approved_plan ''CloudRetail'' True
          [''no'', ''needs more IAM coverage''] maurice)))
   \<and> ra_approved approved_assessment
   \<and> \<not> ra_approved (fst (snd (review_risk_assessment stub_lib approved_assessment
          ''CloudRetail'' True [''no'', ''needs more IAM coverage''] maurice)))"
  by code_simp


subsection \<open>Tool registration\<close>

text \<open>
  \<open>register_tool\<close> is an assignment to the tool map: the tool registered last is the
  one found under its name, the tools under the other names stay, and a name keeps its
  place among the names or goes to their end.
\<close>

lemma register_tool_is_assignment:
  "map_of (tools (register_tool t ag)) (tool_name t) = Some t
   \<and> (\<forall>n. n \<noteq> tool_name t \<longrightarrow> map_of (tools (register_tool t ag)) n = map_of (tools ag) n)
   \<and> map fst (tools (register_tool t ag)) =
       (if tool_name t \<in> set (map fst (tools ag)) then map fst (tools ag)
        else map fst (tools ag) @ [tool_name t])"
  by (simp add: register_tool_def update_conv' update_keys)

text \<open>
  C2, the code at the failing input. Whatever is registered under the name of \<open>t\<close>,
  \<open>register_tool t\<close> returns with \<open>t\<close> in its place: the method has no test for the
  name. On an agent that holds \<open>test_tool\<close>, registering \<open>test_tool_again\<close>, a
  different tool of the same name, is accepted and the first registration is lost. The
  dashboard makes the test itself before it calls the method: the same request there is
  answered with status 400 and the agent is left as it was.
\<close>

theorem duplicate_registration_overwrites:
  "map_of (tools (register_tool t ag)) (tool_name t) = Some t
   \<and> tool_name test_tool_again = tool_name test_tool
   \<and> test_tool_again \<noteq> test_tool
   \<and> map_of (tools (register_tool test_tool (test_agent (reply_stub ''x'')))) ''test_tool''
       = Some test_tool
   \<and> map_of (tools (register_tool test_tool_again
        (register_tool test_tool (test_agent (reply_stub ''x''))))) ''test_tool''
       = Some test_tool_again
   \<and> map fst (tools (register_tool test_tool_again
        (register_tool test_tool (test_agent (reply_stub ''x''))))) = [''test_tool'']
   \<and> add_agent_tool stub_lib ''TestAgent'' test_tool_again
        (register_tool test_tool (test_agent (reply_stub ''x'')))
       = (([(''error'', PStr (''Tool '' @ quoted ''test_tool'' @ '' already exists on agent''))],
           400),
          register_tool test_tool (test_agent (reply_stub ''x'')))"
  by (simp add: register_tool_def update_conv' add_agent_tool_def test_agent_def
      test_tool_def test_tool_again_def)

subsection \<open>Tool invocation\<close>

text \<open>
  C5 (as amended). Acting on a \<open>use_tool\<close> decision whose \<open>tool\<close> field is a string,
  or any other value that is neither a list nor a dictionary, never raises on account of
  the tool. If the field is not the name of a registered tool, \<open>act\<close> returns an error
  result and the agent changes only in that its memory gains one message of role
  \<open>user\<close>, which says that the tool was not found and lists the registered tool names
  (the rendering of their list); so the goal state stays as it was, Working in the loop.
  If the tool is registered and its \<open>execute\<close> raises \<open>e\<close>, \<open>act\<close> returns an error
  result, a \<open>tool_call\<close> action with an \<open>error\<close> field is logged, and the text of
  \<open>e\<close> is appended to memory in a message of role \<open>user\<close>. A \<open>tool\<close> field that is
  a list or a dictionary makes the membership test raise TypeError before the \<open>try\<close>:
  that exception leaves \<open>act\<close>, and the agent is not changed.
\<close>

theorem tool_failures_are_folded_back:
  "(dict_get d ''action'' PNone = PStr ''use_tool''
      \<and> dict_get d ''tool'' PNone = PStr nm \<and> map_of (tools ag) nm = None
    \<longrightarrow> act lib (PDict d) ag w =
         (Inr (PDict [(''error'',
                 PStr (''Tool '' @ CHR 0x27 # nm @ CHR 0x27
                       # '' not found. Available tools: ''
                       @ fmt lib (PList (map PStr (map fst (tools ag))))))]),
          ag\<lparr>memory := memory ag
                @ [\<lparr>role = ''user'',
                    content = ''Tool '' @ CHR 0x27 # nm @ CHR 0x27
                       # '' not found. Available tools: ''
                       @ fmt lib (PList (map PStr (map fst (tools ag))))\<rparr>]\<rparr>,
          w))
   \<and> (dict_get d ''action'' PNone = PStr ''use_tool''
      \<and> dict_get d ''tool'' PNone = tv
      \<and> (\<forall>s. tv \<noteq> PStr s) \<and> (\<forall>l. tv \<noteq> PList l) \<and> (\<forall>kv. tv \<noteq> PDict kv)
    \<longrightarrow> act lib (PDict d) ag w =
         (Inr (PDict [(''error'',
                 PStr (''Tool '' @ CHR 0x27 # fmt lib tv @ CHR 0x27
                       # '' not found. Available tools: ''
                       @ fmt lib (PList (map PStr (map fst (tools ag))))))]),
          ag\<lparr>memory := memory ag
                @ [\<lparr>role = ''user'',
                    content = ''Tool '' @ CHR 0x27 # fmt lib tv @ CHR 0x27
                       # '' not found. Available tools: ''
                       @ fmt lib (PList (map PStr (map fst (tools ag))))\<rparr>]\<rparr>,
          w))
   \<and> (dict_get d ''action'' PNone = PStr ''use_tool''
      \<and> dict_get d ''tool'' PNone = PStr nm \<and> map_of (tools ag) nm = Some t
      \<and> dict_get d ''parameters'' (PDict []) = PDict kwargs
      \<and> execute t kwargs w = (Inl e, w')
    \<longrightarrow> act lib (PDict d) ag w =
         (Inr (PDict [(''error'', PStr (''Tool execution failed: '' @ exn_str e))]),
          ag\<lparr>action_history := action_history ag
                @ [\<lparr>act_type = ''tool_call'',
                    act_description = ''Tool call failed: '' @ nm,
                    act_details = [(''tool'', PStr nm), (''parameters'', PDict kwargs),
                                   (''error'', PStr (exn_str e))],
                    act_result = PNone\<rparr>],
              memory := memory ag
                @ [\<lparr>role = ''user'', content = ''Tool execution failed: '' @ exn_str e\<rparr>]\<rparr>,
          w'))
   \<and> (dict_get d ''action'' PNone = PStr ''use_tool''
      \<and> (dict_get d ''tool'' PNone = PList l \<or> dict_get d ''tool'' PNone = PDict kv)
    \<longrightarrow> act lib (PDict d) ag w =
         (Inl (Exn ''TypeError''
                 (''unhashable type: '' @ CHR 0x27
                  # (if dict_get d ''tool'' PNone = PList l then ''list'' else ''dict'')
                  @ [CHR 0x27])),
          ag, w))"
proof (intro conjI impI)
  assume "dict_get d ''action'' PNone = PStr ''use_tool''
      \<and> dict_get d ''tool'' PNone = PStr nm \<and> map_of (tools ag) nm = None"
  then show "act lib (PDict d) ag w =
         (Inr (PDict [(''error'',
                 PStr (''Tool '' @ CHR 0x27 # nm @ CHR 0x27
                       # '' not found. Available tools: ''
                       @ fmt lib (PList (map PStr (map fst (tools ag))))))]),
          ag\<lparr>memory := memory ag
                @ [\<lparr>role = ''user'',
                    content = ''Tool '' @ CHR 0x27 # nm @ CHR 0x27
                       # '' not found. Available tools: ''
                       @ fmt lib (PList (map PStr (map fst (tools ag))))\<rparr>]\<rparr>,
          w)"
    by (simp add: act_def execute_tool_def tool_lookup_def Let_def comp_def
        case_prod_unfold tool_error_result_def user_message_def quoted_def py_format_def)
next
  assume "dict_get d ''action'' PNone = PStr ''use_tool''
      \<and> dict_get d ''tool'' PNone = tv
      \<and> (\<forall>s. tv \<noteq> PStr s) \<and> (\<forall>l. tv \<noteq> PList l) \<and> (\<forall>kv. tv \<noteq> PDict kv)"
  then show "act lib (PDict d) ag w =
         (Inr (PDict [(''error'',
                 PStr (''Tool '' @ CHR 0x27 # fmt lib tv @ CHR 0x27
                       # '' not found. Available tools: ''
                       @ fmt lib (PList (map PStr (map fst (tools ag))))))]),
          ag\<lparr>memory := memory ag
                @ [\<lparr>role = ''user'',
                    content = ''Tool '' @ CHR 0x27 # fmt lib tv @ CHR 0x27
                       # '' not found. Available tools: ''
                       @ fmt lib (PList (map PStr (map fst (tools ag))))\<rparr>]\<rparr>,
          w)"
    by (cases tv)
       (simp_all add: act_def execute_tool_def tool_lookup_def Let_def comp_def
          case_prod_unfold tool_error_result_def user_message_def quoted_def py_format_def)
next
  assume "dict_get d ''action'' PNone = PStr ''use_tool''
      \<and> dict_get d ''tool'' PNone = PStr nm \<and> map_of (tools ag) nm = Some t
      \<and> dict_get d ''parameters'' (PDict []) = PDict kwargs
      \<and> execute t kwargs w = (Inl e, w')"
  then show "act lib (PDict d) ag w =
         (Inr (PDict [(''error'', PStr (''Tool execution failed: '' @ exn_str e))]),
          ag\<lparr>action_history := action_history ag
                @ [\<lparr>act_type = ''tool_call'',
                    act_description = ''Tool call failed: '' @ nm,
                    act_details = [(''tool'', PStr nm), (''parameters'', PDict kwargs),
                                   (''error'', PStr (exn_str e))],
                    act_result = PNone\<rparr>],
              memory := memory ag
                @ [\<lparr>role = ''user'', content = ''Tool execution failed: '' @ exn_str e\<rparr>]\<rparr>,
          w')"
    by (simp add: act_def execute_tool_def tool_lookup_def tool_failed_def
        log_agent_action_def py_format_def Let_def tool_error_result_def user_message_def)
next
  assume "dict_get d ''action'' PNone = PStr ''use_tool''
      \<and> (dict_get d ''tool'' PNone = PList l \<or> dict_get d ''tool'' PNone = PDict kv)"
  then show "act lib (PDict d) ag w =
         (Inl (Exn ''TypeError''
                 (''unhashable type: '' @ CHR 0x27
                  # (if dict_get d ''tool'' PNone = PList l then ''list'' else ''dict'')
                  @ [CHR 0x27])),
          ag, w)"
    by (auto simp add: act_def execute_tool_def tool_lookup_def Let_def quoted_def)
qed

text \<open>
  C5, witness: a working agent that holds \<open>failing_tool\<close> is told to use
  \<open>frobnicate\<close>, then \<open>failing_tool\<close>. Neither call raises; memory gains the user
  message with the list of names, then the one with the text of the exception, and the
  failed call is logged.
\<close>

theorem tool_failures_are_folded_back_witness:
  "act names_lib (PDict [(''action'', PStr ''use_tool''), (''tool'', PStr ''frobnicate'')])
     tooled_agent ()
   = (Inr (PDict [(''error'',
        PStr ''Tool 'frobnicate' not found. Available tools: ['failing_tool']'')]),
      tooled_agent\<lparr>memory := memory tooled_agent
        @ [\<lparr>role = ''user'',
            content = ''Tool 'frobnicate' not found. Available tools: ['failing_tool']''\<rparr>]\<rparr>,
      ())
   \<and> act names_lib (PDict [(''action'', PStr ''use_tool''), (''tool'', PStr ''failing_tool'')])
     tooled_agent ()
   = (Inr (PDict [(''error'', PStr ''Tool execution failed: Tool failed'')]),
      tooled_agent\<lparr>action_history := action_history tooled_agent
        @ [\<lparr>act_type = ''tool_call'',
            act_description = ''Tool call failed: failing_tool'',
            act_details = [(''tool'', PStr ''failing_tool''), (''parameters'', PDict []),
                           (''error'', PStr ''Tool failed'')],
            act_result = PNone\<rparr>],
        memory := memory tooled_agent
        @ [\<lparr>role = ''user'', content = ''Tool execution failed: Tool failed''\<rparr>]\<rparr>,
      ())
   \<and> goal_status tooled_agent = Working
   \<and> map fst (tools tooled_agent) = [''failing_tool'']"
proof -
  let ?d1 = "[(''action'', PStr ''use_tool''), (''tool'', PStr ''frobnicate'')]"
  let ?d2 = "[(''action'', PStr ''use_tool''), (''tool'', PStr ''failing_tool'')]"
  have t1: "map_of (tools tooled_agent) ''frobnicate'' = None"
    and t2: "map_of (tools tooled_agent) ''failing_tool'' = Some failing_tool"
    and st: "goal_status tooled_agent = Working"
    and ns: "map fst (tools tooled_agent) = [''failing_tool'']"
    by (simp_all add: tooled_agent_def set_goal_def log_agent_action_def register_tool_def
        test_agent_def failing_tool_def)
  have a1: "dict_get ?d1 ''action'' PNone = PStr ''use_tool''"
    and n1: "dict_get ?d1 ''tool'' PNone = PStr ''frobnicate''"
    and a2: "dict_get ?d2 ''action'' PNone = PStr ''use_tool''"
    and n2: "dict_get ?d2 ''tool'' PNone = PStr ''failing_tool''"
    and p2: "dict_get ?d2 ''parameters'' (PDict []) = PDict []"
    by (simp_all add: dict_get_def)
  have x2: "execute failing_tool [] () = (Inl (Exn ''ValueError'' ''Tool failed''), ())"
    by (simp add: failing_tool_def)
  have r1: "act names_lib (PDict ?d1) tooled_agent () =
         (Inr (PDict [(''error'',
                 PStr (''Tool '' @ CHR 0x27 # ''frobnicate'' @ CHR 0x27
                       # '' not found. Available tools: ''
                       @ fmt names_lib (PList (map PStr (map fst (tools tooled_agent))))))]),
          tooled_agent\<lparr>memory := memory tooled_agent
                @ [\<lparr>role = ''user'',
                    content = ''Tool '' @ CHR 0x27 # ''frobnicate''
                       @ CHR 0x27 # '' not found. Available tools: ''
                       @ fmt names_lib (PList (map PStr (map fst (tools tooled_agent))))\<rparr>]\<rparr>,
          ())"
    using tool_failures_are_folded_back [where d = ?d1 and nm = "''frobnicate''"
        and ag = tooled_agent and lib = names_lib and w = "()"]
      a1 n1 t1 by blast
  have r2: "act names_lib (PDict ?d2) tooled_agent () =
         (Inr (PDict [(''error'', PStr (''Tool execution failed: ''
                 @ exn_str (Exn ''ValueError'' ''Tool failed'')))]),
          tooled_agent\<lparr>action_history := action_history tooled_agent
                @ [\<lparr>act_type = ''tool_call'',
                    act_description = ''Tool call failed: '' @ ''failing_tool'',
                    act_details = [(''tool'', PStr ''failing_tool''), (''parameters'', PDict []),
                                   (''error'', PStr (exn_str (Exn ''ValueError'' ''Tool failed'')))],
                    act_result = PNone\<rparr>],
              memory := memory tooled_agent
                @ [\<lparr>role = ''user'', content = ''Tool execution failed: ''
                     @ exn_str (Exn ''ValueError'' ''Tool failed'')\<rparr>]\<rparr>,
          ())"
    using tool_failures_are_folded_back [where d = ?d2 and nm = "''failing_tool''"
        and ag = tooled_agent and lib = names_lib and w = "()" and t = failing_tool
        and kwargs = "[]" and e = "Exn ''ValueError'' ''Tool failed''" and w' = "()"]
      a2 n2 t2 p2 x2 by blast
  show ?thesis
    unfolding r1 r2
    by (simp add: st ns names_lib_def stub_lib_def py_format_def)
qed

text \<open>
  C5, counterexample to the claim as stated: a decision whose \<open>tool\<close> field is a list
  makes \<open>act\<close> raise.
\<close>

theorem unhashable_tool_name_raises:
  "act stub_lib (PDict [(''action'', PStr ''use_tool''), (''tool'', PList [PStr ''failing_tool''])])
     tooled_agent ()
   = (Inl (Exn ''TypeError'' (''unhashable type: '' @ CHR 0x27 # ''list'' @ [CHR 0x27])),
      tooled_agent, ())"
  by (simp add: act_def execute_tool_def tool_lookup_def Let_def quoted_def dict_get_def)

subsection \<open>The retry bound of one reasoning turn\<close>

text \<open>
  C4 (as amended). One call of \<open>reason\<close> makes at most two chat calls, whatever the
  stub answers. Let the agent have a goal and be Working. If the parser raises on the
  first reply, the conversation is sent again, extended by that reply and by one
  corrective message of role \<open>user\<close>; if the parser raises on the second reply too,
  \<open>reason\<close> ends with this second error after exactly two calls (the count goes from
  \<open>n\<close> to \<open>n + 2\<close>), and nothing is logged. If the first reply parses there is no
  second call, whether or not the value is a decision: a JSON object of any shape is
  logged and returned as the decision, and any other JSON value ends \<open>reason\<close> with an
  AttributeError.
\<close>

theorem reason_retry_bound:
  assumes client: "llm ag = counted client"
  shows "snd (snd (snd (reason lib ag (w, n)))) \<le> n + 2
   \<and> (current_goal ag = Some g \<and> g \<noteq> [] \<and> goal_status ag = Working
        \<and> client (memory ag) w = (Inr ra, wa)
        \<and> parse_llm_response lib (response_content ra) = Inl ea
        \<and> client (memory ag
             @ [\<lparr>role = ''assistant'', content = response_content ra\<rparr>,
                \<lparr>role = ''user'',
                 content = ''Your response wasn't in the expected JSON format. \<newline>''
                   @ ''Please respond with a valid JSON object specifying your action.''\<rparr>]) wa
            = (Inr rb, wb)
        \<and> parse_llm_response lib (response_content rb) = Inl eb
      \<longrightarrow> reason lib ag (w, n) =
            (Inl eb,
             ag\<lparr>memory := memory ag
                  @ [\<lparr>role = ''assistant'', content = response_content ra\<rparr>,
                     \<lparr>role = ''user'',
                      content = ''Your response wasn't in the expected JSON format. \<newline>''
                        @ ''Please respond with a valid JSON object specifying your action.''\<rparr>,
                     \<lparr>role = ''assistant'', content = response_content rb\<rparr>]\<rparr>,
             (wb, n + 2)))
   \<and> (current_goal ag = Some g \<and> g \<noteq> [] \<and> goal_status ag = Working
        \<and> client (memory ag) w = (Inr ra, wa)
        \<and> parse_llm_response lib (response_content ra) = Inr (PDict d)
      \<longrightarrow> reason lib ag (w, n) =
            (Inr (PDict d),
             ag\<lparr>memory := memory ag
                  @ [\<lparr>role = ''assistant'', content = response_content ra\<rparr>],
                action_history := action_history ag
                  @ [\<lparr>act_type = ''reason'',
                      act_description = ''Agent reasoned about next action'',
                      act_details = d,
                      act_result = dict_get d ''reasoning'' (PStr [])\<rparr>]\<rparr>,
             (wa, n + 1)))
   \<and> (current_goal ag = Some g \<and> g \<noteq> [] \<and> goal_status ag = Working
        \<and> client (memory ag) w = (Inr ra, wa)
        \<and> parse_llm_response lib (response_content ra) = Inr v \<and> (\<forall>d. v \<noteq> PDict d)
      \<longrightarrow> reason lib ag (w, n) =
            (Inl (Exn ''AttributeError''
                    (quoted (py_type_name v) @ '' object has no attribute '' @ quoted ''get'')),
             ag\<lparr>memory := memory ag
                  @ [\<lparr>role = ''assistant'', content = response_content ra\<rparr>]\<rparr>,
             (wa, n + 1)))"
proof (intro conjI impI)
  show "snd (snd (snd (reason lib ag (w, n)))) \<le> n + 2"
    using client
    by (auto simp add: reason_def Let_def counted_def log_reasoning_def
        split: prod.splits sum.splits pyval.splits)
next
  assume "current_goal ag = Some g \<and> g \<noteq> [] \<and> goal_status ag = Working
        \<and> client (memory ag) w = (Inr ra, wa)
        \<and> parse_llm_response lib (response_content ra) = Inl ea
        \<and> client (memory ag
             @ [\<lparr>role = ''assistant'', content = response_content ra\<rparr>,
                \<lparr>role = ''user'',
                 content = ''Your response wasn't in the expected JSON format. \<newline>''
                   @ ''Please respond with a valid JSON object specifying your action.''\<rparr>]) wa
            = (Inr rb, wb)
        \<and> parse_llm_response lib (response_content rb) = Inl eb"
  then show "reason lib ag (w, n) =
            (Inl eb,
             ag\<lparr>memory := memory ag
                  @ [\<lparr>role = ''assistant'', content = response_content ra\<rparr>,
                     \<lparr>role = ''user'',
                      content = ''Your response wasn't in the expected JSON format. \<newline>''
                        @ ''Please respond with a valid JSON object specifying your action.''\<rparr>,
                     \<lparr>role = ''assistant'', content = response_content rb\<rparr>]\<rparr>,
             (wb, n + 2))"
    using client
    by (simp add: reason_def Let_def counted_def assistant_message_def user_message_def
        clarification_msg_def)
next
  assume "current_goal ag = Some g \<and> g \<noteq> [] \<and> goal_status ag = Working
        \<and> client (memory ag) w = (Inr ra, wa)
        \<and> parse_llm_response lib (response_content ra) = Inr (PDict d)"
  then show "reason lib ag (w, n) =
            (Inr (PDict d),
             ag\<lparr>memory := memory ag
                  @ [\<lparr>role = ''assistant'', content = response_content ra\<rparr>],
                action_history := action_history ag
                  @ [\<lparr>act_type = ''reason'',
                      act_description = ''Agent reasoned about next action'',
                      act_details = d,
                      act_result = dict_get d ''reasoning'' (PStr [])\<rparr>]\<rparr>,
             (wa, n + 1))"
    using client
    by (simp add: reason_def Let_def counted_def assistant_message_def log_reasoning_def
        log_agent_action_def)
next
  assume "current_goal ag = Some g \<and> g \<noteq> [] \<and> goal_status ag = Working
        \<and> client (memory ag) w = (Inr ra, wa)
        \<and> parse_llm_response lib (response_content ra) = Inr v \<and> (\<forall>d. v \<noteq> PDict d)"
  then show "reason lib ag (w, n) =
            (Inl (Exn ''AttributeError''
                    (quoted (py_type_name v) @ '' object has no attribute '' @ quoted ''get'')),
             ag\<lparr>memory := memory ag
                  @ [\<lparr>role = ''assistant'', content = response_content ra\<rparr>]\<rparr>,
             (wa, n + 1))"
    using client
    by (cases v)
       (simp_all add: reason_def Let_def counted_def assistant_message_def log_reasoning_def
          no_get_error_def)
qed

lemma prose_unparsed:
  "parse_llm_response stub_lib ''I am not sure what to do.''
     = Inl (Exn ''ValueError'' ''No JSON object found in response'')"
  by code_simp

lemma foo_parsed:
  "parse_llm_response loose_lib foo_reply = Inr (PDict [(''foo'', PInt 1)])"
  by code_simp

lemma list_parsed:
  "parse_llm_response loose_lib list_reply = Inr (PList [PInt 1, PInt 2])"
  by code_simp

text \<open>
  C4, witness: an agent whose stub always answers in prose makes two calls, counted from
  0 to 2, the second one after the corrective message, and \<open>reason\<close> ends in the parse
  error; an agent whose stub answers a JSON object makes one call.
\<close>

theorem reason_retry_bound_witness:
  "fst (reason stub_lib (replying_agent ''I am not sure what to do.'') ((), 0))
     = Inl (Exn ''ValueError'' ''No JSON object found in response'')
   \<and> snd (snd (snd (reason stub_lib (replying_agent ''I am not sure what to do.'') ((), 0)))) = 2
   \<and> drop (length (memory (replying_agent ''I am not sure what to do.'')))
        (memory (fst (snd (reason stub_lib (replying_agent ''I am not sure what to do.'')
           ((), 0)))))
       = [\<lparr>role = ''assistant'', content = ''I am not sure what to do.''\<rparr>,
          \<lparr>role = ''user'',
           content = ''Your response wasn't in the expected JSON format. \<newline>''
             @ ''Please respond with a valid JSON object specifying your action.''\<rparr>,
          \<lparr>role = ''assistant'', content = ''I am not sure what to do.''\<rparr>]
   \<and> fst (reason loose_lib (replying_agent foo_reply) ((), 0)) = Inr (PDict [(''foo'', PInt 1)])
   \<and> snd (snd (snd (reason loose_lib (replying_agent foo_reply) ((), 0)))) = 1"
proof -
  let ?prose = "''I am not sure what to do.''"
  let ?r = "\<lambda>rt. \<lparr>response_content = rt, response_model = ''test-model'', tokens_used = 10,
                     cost = 0, response_timestamp = 0\<rparr>"
  have c: "llm (replying_agent rt) = counted (reply_stub rt)"
    and g: "current_goal (replying_agent rt) = Some ''g''"
    and s: "goal_status (replying_agent rt) = Working" for rt
    by (simp_all add: replying_agent_def set_goal_def log_agent_action_def test_agent_def)
  have f: "reply_stub rt conv () = (Inr (?r rt), ())" for rt conv
    by (simp add: reply_stub_def)
  have p: "parse_llm_response stub_lib (response_content (?r ?prose))
             = Inl (Exn ''ValueError'' ''No JSON object found in response'')"
    by (simp add: prose_unparsed)
  have q: "parse_llm_response loose_lib (response_content (?r foo_reply))
             = Inr (PDict [(''foo'', PInt 1)])"
    by (simp add: foo_parsed)
  have a: "reason stub_lib (replying_agent ?prose) ((), 0) =
            (Inl (Exn ''ValueError'' ''No JSON object found in response''),
             (replying_agent ?prose)\<lparr>memory := memory (replying_agent ?prose)
                  @ [\<lparr>role = ''assistant'', content = response_content (?r ?prose)\<rparr>,
                     \<lparr>role = ''user'',
                      content = ''Your response wasn't in the expected JSON format. \<newline>''
                        @ ''Please respond with a valid JSON object specifying your action.''\<rparr>,
                     \<lparr>role = ''assistant'', content = response_content (?r ?prose)\<rparr>]\<rparr>,
             ((), 0 + 2))"
    using reason_retry_bound [OF c [of "?prose"], where lib = stub_lib and w = "()" and n = 0
        and g = "''g''" and ra = "?r ?prose" and wa = "()"
        and ea = "Exn ''ValueError'' ''No JSON object found in response''"
        and rb = "?r ?prose" and wb = "()"
        and eb = "Exn ''ValueError'' ''No JSON object found in response''"]
      g [of "?prose"] s [of "?prose"] f p
    by blast
  have b: "reason loose_lib (replying_agent foo_reply) ((), 0) =
            (Inr (PDict [(''foo'', PInt 1)]),
             (replying_agent foo_reply)\<lparr>memory := memory (replying_agent foo_reply)
                  @ [\<lparr>role = ''assistant'', content = response_content (?r foo_reply)\<rparr>],
                action_history := action_history (replying_agent foo_reply)
                  @ [\<lparr>act_type = ''reason'',
                      act_description = ''Agent reasoned about next action'',
                      act_details = [(''foo'', PInt 1)],
                      act_result = dict_get [(''foo'', PInt 1)] ''reasoning'' (PStr [])\<rparr>]\<rparr>,
             ((), 0 + 1))"
    using reason_retry_bound [OF c [of foo_reply], where lib = loose_lib and w = "()" and n = 0
        and g = "''g''" and ra = "?r foo_reply" and wa = "()"
        and d = "[(''foo'', PInt 1)]"]
      g [of foo_reply] s [of foo_reply] f q
    by blast
  show ?thesis unfolding a b by simp
qed

text \<open>
  C4, counterexample to the claim as stated: the replies of these stubs never parse as a
  decision, yet \<open>reason\<close> makes one chat call, not two. The object \<open>{"foo": 1}\<close> is
  returned as if it were a decision; the list \<open>[1, 2]\<close> ends \<open>reason\<close> with an
  AttributeError, not with a parse failure.
\<close>

theorem one_call_for_json_that_is_no_decision:
  "fst (reason loose_lib (replying_agent foo_reply) ((), 0)) = Inr (PDict [(''foo'', PInt 1)])
   \<and> snd (snd (snd (reason loose_lib (replying_agent foo_reply) ((), 0)))) = 1
   \<and> fst (reason loose_lib (replying_agent list_reply) ((), 0))
       = Inl (Exn ''AttributeError''
                (quoted ''list'' @ '' object has no attribute '' @ quoted ''get''))
   \<and> snd (snd (snd (reason loose_lib (replying_agent list_reply) ((), 0)))) = 1"
  by code_simp

subsection \<open>The autonomous loop\<close>

text \<open>
  C3, the code at the failing input. The stub of scenario 1 answers \<open>goal_complete\<close> in
  its first turn. With \<open>max_iterations = 1\<close> the decision is made and acted on in the
  last permitted iteration: the action log is \<open>[goal_set, reason, goal_complete]\<close>, yet
  the test \<open>iteration >= max_iterations\<close> after the loop overwrites Complete with
  Blocked. With \<open>max_iterations = 2\<close> the same run ends Complete.
\<close>

theorem completion_on_last_iteration_ends_blocked:
  "goal_status (fst (snd (run_autonomously json_lib 1
       (set_goal ''g'' (test_agent (reply_stub complete_reply))) ()))) = Blocked
   \<and> map act_type (action_history (fst (snd (run_autonomously json_lib 1
       (set_goal ''g'' (test_agent (reply_stub complete_reply))) ()))))
       = [''goal_set'', ''reason'', ''goal_complete'']
   \<and> goal_status (fst (snd (run_autonomously json_lib 2
       (set_goal ''g'' (test_agent (reply_stub complete_reply))) ()))) = Complete"
  by code_simp

subsection \<open>Goal state transitions\<close>

lemma log_agent_action_status [simp]:
  "goal_status (log_agent_action atype descr details res ag) = goal_status ag"
  by (simp add: log_agent_action_def)

lemma log_reasoning_status:
  "goal_status (fst (snd (log_reasoning decision ag w))) = goal_status ag"
  by (cases decision) (simp_all add: log_reasoning_def)

lemma reason_status:
  "goal_status (fst (snd (reason lib ag w))) = goal_status ag"
  by (simp add: reason_def Let_def log_reasoning_status split: prod.splits sum.splits)

lemma tool_failed_status:
  "goal_status (fst (snd (tool_failed lib tool_nm params e ag w))) = goal_status ag"
  by (simp add: tool_failed_def Let_def)

lemma execute_tool_status:
  "goal_status (fst (snd (execute_tool lib d ag w))) = goal_status ag"
  by (simp add: execute_tool_def Let_def tool_failed_status
      split: prod.splits sum.splits option.splits pyval.splits)

lemma reset_status: "goal_status (snd (reset lib ag)) = Idle"
  by (simp add: reset_def init_system_message_def split: sum.splits)

lemma act_goal_status:
  "goal_status (fst (snd (act lib decision ag w))) =
     (case decision of
        PDict d \<Rightarrow> if dict_get d ''action'' PNone = PStr ''goal_complete'' then Complete
                   else goal_status ag
      | _ \<Rightarrow> goal_status ag)"
  by (cases decision)
     (auto simp: act_def Let_def execute_tool_status complete_goal_def document_work_def
        send_message_def split: pyval.splits)

lemma run_loop_exit:
  "case run_exit lib m i ag w of
     Raised e \<Rightarrow> goal_status (fst (snd (run_loop lib m i ag w))) = Blocked
   | Goal_completed \<Rightarrow> goal_status (fst (snd (run_loop lib m i ag w))) = Complete
   | Test_failed \<Rightarrow>
       (goal_status ag = Working \<longrightarrow>
          goal_status (fst (snd (run_loop lib m i ag w))) = Working
          \<and> m \<le> fst (run_loop lib m i ag w))
       \<and> (goal_status ag \<noteq> Working \<longrightarrow> run_loop lib m i ag w = (i, ag, w))"
proof (induction lib m i ag w rule: run_loop.induct)
  case (1 lib m i ag w)
  show ?case
  proof (cases "goal_status ag = Working \<and> i < m")
    case False
    then have l: "run_loop lib m i ag w = (i, ag, w)"
      by (subst run_loop.simps) (simp only: if_False)
    from False have x: "run_exit lib m i ag w = Test_failed"
      by (subst run_exit.simps) (simp only: if_False)
    show ?thesis unfolding l x using False by auto
  next
    case True
    obtain r ag1 w1 where r: "reason lib ag w = (r, ag1, w1)" by (cases "reason lib ag w")
    have s1: "goal_status ag1 = Working"
      using reason_status [of lib ag w] r True by simp
    show ?thesis
    proof (cases r)
      case (Inl e)
      with True r show ?thesis
        by (simp add: run_loop.simps [of lib m i ag w] run_exit.simps [of lib m i ag w])
    next
      case (Inr decision)
      obtain a ag2 w2 where a: "act lib decision ag1 w1 = (a, ag2, w2)"
        by (cases "act lib decision ag1 w1")
      have s2: "goal_status ag2 =
         (case decision of
            PDict d \<Rightarrow> if dict_get d ''action'' PNone = PStr ''goal_complete'' then Complete
                       else goal_status ag1
          | _ \<Rightarrow> goal_status ag1)"
        using act_goal_status [of lib decision ag1 w1] a by simp
      show ?thesis
      proof (cases a)
        case (Inl e)
        with True r Inr a show ?thesis
          by (simp add: run_loop.simps [of lib m i ag w] run_exit.simps [of lib m i ag w])
      next
        case res: (Inr result)
        show ?thesis
        proof (cases decision)
          case (PDict d)
          show ?thesis
          proof (cases "dict_get d ''action'' PNone = PStr ''goal_complete''")
            case gc: True
            with True r Inr a res PDict s2 show ?thesis
              by (simp add: run_loop.simps [of lib m i ag w] run_exit.simps [of lib m i ag w])
          next
            case ngc: False
            have ih: "case run_exit lib m (i + 1) ag2 w2 of
                 Raised e \<Rightarrow> goal_status (fst (snd (run_loop lib m (i + 1) ag2 w2))) = Blocked
               | Goal_completed \<Rightarrow>
                   goal_status (fst (snd (run_loop lib m (i + 1) ag2 w2))) = Complete
               | Test_failed \<Rightarrow>
                   (goal_status ag2 = Working \<longrightarrow>
                      goal_status (fst (snd (run_loop lib m (i + 1) ag2 w2))) = Working
                      \<and> m \<le> fst (run_loop lib m (i + 1) ag2 w2))
                   \<and> (goal_status ag2 \<noteq> Working \<longrightarrow>
                        run_loop lib m (i + 1) ag2 w2 = (i + 1, ag2, w2))"
              using "1.IH" [OF True r [symmetric] Inr refl a [symmetric] res refl PDict ngc] .
            have w2: "goal_status ag2 = Working"
              using s2 s1 PDict ngc by simp
            have l: "run_loop lib m i ag w = run_loop lib m (i + 1) ag2 w2"
              using True r Inr a res PDict ngc by (simp add: run_loop.simps [of lib m i ag w])
            have x: "run_exit lib m i ag w = run_exit lib m (i + 1) ag2 w2"
              using True r Inr a res PDict ngc by (simp add: run_exit.simps [of lib m i ag w])
            show ?thesis
              unfolding l x using ih w2 True
              by (simp split: loop_exit.splits)
          qed
        qed (use True r Inr a res in
              \<open>simp_all add: run_loop.simps [of lib m i ag w] run_exit.simps [of lib m i ag w]\<close>)
      qed
    qed
  qed
qed

text \<open>
  C6 (as amended). \<open>set_goal\<close> is permitted in every goal state, Working included: it
  never fails and always leaves the agent Working. Registering a tool and \<open>reason\<close>
  leave the goal state as it was; \<open>act\<close> leaves Complete on a \<open>goal_complete\<close>
  decision, from any state, and the state as it was on any other decision; \<open>reset\<close>
  leaves Idle, from any state. \<open>run_autonomously\<close> without a goal raises and changes
  nothing. With a goal: a run in which an iteration raises ends Blocked; a run in which
  \<open>goal_complete\<close> is decided while the iteration count is below the cap ends Complete;
  a run of a Working agent that is left by the test of the loop has reached the cap and
  ends Blocked; a run with a positive cap on an agent that is not Working changes nothing.
  (Nothing is said here of the two cases in which the test after the loop overrides a
  state that is not Working: completion in the last permitted iteration, and a cap that
  is not positive on an agent that is not Working.)
\<close>

theorem goal_state_transitions:
  "goal_status (set_goal g ag) = Working
   \<and> goal_status (register_tool t ag) = goal_status ag
   \<and> goal_status (fst (snd (reason lib ag w))) = goal_status ag
   \<and> goal_status (fst (snd (act lib decision ag w))) =
       (if \<exists>d. decision = PDict d \<and> dict_get d ''action'' PNone = PStr ''goal_complete''
        then Complete else goal_status ag)
   \<and> goal_status (snd (reset lib ag)) = Idle
   \<and> (current_goal ag = None \<or> current_goal ag = Some []
        \<longrightarrow> snd (run_autonomously lib m ag w) = (ag, w))
   \<and> (current_goal ag = Some g0 \<and> g0 \<noteq> []
        \<longrightarrow> (\<forall>e. run_exit lib m 0 ag w = Raised e
                \<longrightarrow> goal_status (fst (snd (run_autonomously lib m ag w))) = Blocked)
          \<and> (run_exit lib m 0 ag w = Goal_completed \<and> fst (run_loop lib m 0 ag w) < m
                \<longrightarrow> goal_status (fst (snd (run_autonomously lib m ag w))) = Complete)
          \<and> (run_exit lib m 0 ag w = Test_failed \<and> goal_status ag = Working
                \<longrightarrow> goal_status (fst (snd (run_autonomously lib m ag w))) = Blocked
                    \<and> m \<le> fst (run_loop lib m 0 ag w))
          \<and> (goal_status ag \<noteq> Working \<and> 0 < m
                \<longrightarrow> snd (run_autonomously lib m ag w) = (ag, w)))"
proof -
  have a: "goal_status (fst (snd (act lib decision ag w))) =
       (if \<exists>d. decision = PDict d \<and> dict_get d ''action'' PNone = PStr ''goal_complete''
        then Complete else goal_status ag)"
    using act_goal_status [of lib decision ag w] by (cases decision) auto
  obtain j ag1 w1 where l: "run_loop lib m 0 ag w = (j, ag1, w1)"
    by (cases "run_loop lib m 0 ag w")
  have r: "current_goal ag = Some g0 \<and> g0 \<noteq> [] \<Longrightarrow>
        snd (run_autonomously lib m ag w)
          = ((if m \<le> j then ag1\<lparr>goal_status := Blocked\<rparr> else ag1), w1)"
    by (simp add: run_autonomously_def l Let_def)
  have x: "case run_exit lib m 0 ag w of
     Raised e \<Rightarrow> goal_status ag1 = Blocked
   | Goal_completed \<Rightarrow> goal_status ag1 = Complete
   | Test_failed \<Rightarrow>
       (goal_status ag = Working \<longrightarrow> goal_status ag1 = Working \<and> m \<le> j)
       \<and> (goal_status ag \<noteq> Working \<longrightarrow> (j, ag1, w1) = (0, ag, w))"
    using run_loop_exit [where lib = lib and m = m and i = 0 and ag = ag and w = w]
    by (auto simp add: l split: loop_exit.splits)
  have run: "current_goal ag = Some g0 \<and> g0 \<noteq> []
        \<longrightarrow> (\<forall>e. run_exit lib m 0 ag w = Raised e
                \<longrightarrow> goal_status (fst (snd (run_autonomously lib m ag w))) = Blocked)
          \<and> (run_exit lib m 0 ag w = Goal_completed \<and> fst (run_loop lib m 0 ag w) < m
                \<longrightarrow> goal_status (fst (snd (run_autonomously lib m ag w))) = Complete)
          \<and> (run_exit lib m 0 ag w = Test_failed \<and> goal_status ag = Working
                \<longrightarrow> goal_status (fst (snd (run_autonomously lib m ag w))) = Blocked
                    \<and> m \<le> fst (run_loop lib m 0 ag w))
          \<and> (goal_status ag \<noteq> Working \<and> 0 < m
                \<longrightarrow> snd (run_autonomously lib m ag w) = (ag, w))"
  proof (intro impI)
    assume g: "current_goal ag = Some g0 \<and> g0 \<noteq> []"
    have t: "goal_status ag \<noteq> Working \<Longrightarrow> run_exit lib m 0 ag w = Test_failed"
      by (subst run_exit.simps) simp
    show "(\<forall>e. run_exit lib m 0 ag w = Raised e
                \<longrightarrow> goal_status (fst (snd (run_autonomously lib m ag w))) = Blocked)
          \<and> (run_exit lib m 0 ag w = Goal_completed \<and> fst (run_loop lib m 0 ag w) < m
                \<longrightarrow> goal_status (fst (snd (run_autonomously lib m ag w))) = Complete)
          \<and> (run_exit lib m 0 ag w = Test_failed \<and> goal_status ag = Working
                \<longrightarrow> goal_status (fst (snd (run_autonomously lib m ag w))) = Blocked
                    \<and> m \<le> fst (run_loop lib m 0 ag w))
          \<and> (goal_status ag \<noteq> Working \<and> 0 < m
                \<longrightarrow> snd (run_autonomously lib m ag w) = (ag, w))"
      unfolding r [OF g] l using x t by (auto split: loop_exit.splits)
  qed
  have nogoal: "current_goal ag = None \<or> current_goal ag = Some []
        \<longrightarrow> snd (run_autonomously lib m ag w) = (ag, w)"
    by (auto simp add: run_autonomously_def)
  have basic: "goal_status (set_goal g ag) = Working"
    "goal_status (register_tool t ag) = goal_status ag"
    "goal_status (fst (snd (reason lib ag w))) = goal_status ag"
    "goal_status (snd (reset lib ag)) = Idle"
    by (simp_all add: set_goal_def register_tool_def reason_status reset_status)
  from basic a nogoal run show ?thesis by blast
qed

text \<open>
  C6, witness: a run that decides \<open>goal_complete\<close> in the first of two iterations ends
  Complete; a run whose stub answers in prose, so that \<open>reason\<close> raises, ends Blocked;
  a run whose stub keeps documenting ends Blocked at the cap of one iteration; a run on an
  agent that is Complete leaves it Complete.
\<close>

theorem goal_state_transitions_witness:
  "goal_status (fst (snd (run_autonomously json_lib 2
       (set_goal ''g'' (test_agent (reply_stub complete_reply))) ()))) = Complete
   \<and> goal_status (fst (snd (run_autonomously stub_lib 3
       (set_goal ''g'' (test_agent (reply_stub ''I am not sure what to do.''))) ()))) = Blocked
   \<and> goal_status (fst (snd (run_autonomously loose_lib 1
       (set_goal ''g'' (test_agent (reply_stub document_reply))) ()))) = Blocked
   \<and> goal_status completed_agent = Complete
   \<and> goal_status (fst (snd (run_autonomously stub_lib 1 completed_agent ()))) = Complete"
proof -
  let ?a1 = "set_goal ''g'' (test_agent (reply_stub complete_reply)) :: unit agent"
  let ?a2 = "set_goal ''g'' (test_agent (reply_stub ''I am not sure what to do.'')) :: unit agent"
  let ?a3 = "set_goal ''g'' (test_agent (reply_stub document_reply)) :: unit agent"
  have g: "current_goal (set_goal ''g'' a) = Some ''g'' \<and> ''g'' \<noteq> []"
    and s: "goal_status (set_goal ''g'' a) = Working" for a :: "unit agent"
    by (simp_all add: set_goal_def log_agent_action_def)
  have gc: "current_goal completed_agent = Some ''g'' \<and> ''g'' \<noteq> []"
    and sc: "goal_status completed_agent = Complete"
    by (simp_all add: completed_agent_def set_goal_def log_agent_action_def)
  have x1: "run_exit json_lib 2 0 ?a1 () = Goal_completed"
    and j1: "fst (run_loop json_lib 2 0 ?a1 ()) < 2"
    by code_simp+
  have x2: "run_exit stub_lib 3 0 ?a2 ()
              = Raised (Exn ''ValueError'' ''No JSON object found in response'')"
    by code_simp
  have x3: "run_exit loose_lib 1 0 ?a3 () = Test_failed"
    by code_simp
  have w1: "goal_status (fst (snd (run_autonomously json_lib 2 ?a1 ()))) = Complete"
    using goal_state_transitions [where lib = json_lib and m = 2 and ag = ?a1 and w = "()"
        and ?g0.0 = "''g''"] g [of "test_agent (reply_stub complete_reply)"] x1 j1
    by blast
  have w2: "goal_status (fst (snd (run_autonomously stub_lib 3 ?a2 ()))) = Blocked"
    using goal_state_transitions [where lib = stub_lib and m = 3 and ag = ?a2 and w = "()"
        and ?g0.0 = "''g''"] g [of "test_agent (reply_stub ''I am not sure what to do.'')"] x2
    by blast
  have w3: "goal_status (fst (snd (run_autonomously loose_lib 1 ?a3 ()))) = Blocked"
    using goal_state_transitions [where lib = loose_lib and m = 1 and ag = ?a3 and w = "()"
        and ?g0.0 = "''g''"] g [of "test_agent (reply_stub document_reply)"]
      s [of "test_agent (reply_stub document_reply)"] x3
    by blast
  have "snd (run_autonomously stub_lib 1 completed_agent ()) = (completed_agent, ())"
    using goal_state_transitions [where lib = stub_lib and m = 1 and ag = completed_agent
        and w = "()" and ?g0.0 = "''g''"] gc sc
    by simp
  then have w4: "goal_status (fst (snd (run_autonomously stub_lib 1 completed_agent ())))
      = Complete"
    using sc by simp
  from w1 w2 w3 sc w4 show ?thesis by blast
qed

text \<open>
  C6, counterexample to the claim as stated: \<open>set_goal\<close> called on a Working agent does
  not fail; it replaces the goal and logs a second \<open>goal_set\<close>. And an Idle agent that
  is handed a \<open>goal_complete\<close> decision becomes Complete without having been Working.
\<close>

theorem set_goal_while_working_succeeds:
  "goal_status (set_goal ''first'' (test_agent (reply_stub ''x''))) = Working
   \<and> current_goal (set_goal ''second'' (set_goal ''first'' (test_agent (reply_stub ''x''))))
       = Some ''second''
   \<and> goal_status (set_goal ''second'' (set_goal ''first'' (test_agent (reply_stub ''x''))))
       = Working
   \<and> map act_type (action_history
        (set_goal ''second'' (set_goal ''first'' (test_agent (reply_stub ''x'')))))
       = [''goal_set'', ''goal_set'']
   \<and> goal_status (test_agent (reply_stub ''x'')) = Idle
   \<and> goal_status (fst (snd (act stub_lib complete_decision (test_agent (reply_stub ''x'')) ())))
       = Complete"
  by (simp add: set_goal_def log_agent_action_def test_agent_def act_def complete_goal_def
      complete_decision_def dict_get_def Let_def)


subsection \<open>The cost ledger of the gateway\<close>

text \<open>
  A successful call through the OpenAI or the Anthropic backend is recorded: the call
  count goes up by one, the token total by the call's tokens, the cost total by its cost.
\<close>

lemma paid_providers_record_each_call:
  assumes "p = OpenAI \<or> p = Anthropic"
    and "chat be messages max_tokens (c\<lparr>provider := p\<rparr>) = (Inr r, c')"
  shows "call_count (tracker c') = call_count (tracker c) + 1
         \<and> total_tokens (tracker c') = total_tokens (tracker c) + tokens_used r
         \<and> total_cost (tracker c') = total_cost (tracker c) + cost r"
  using assms
  by (auto simp: chat_def chat_openai_def chat_anthropic_def read_clock_def
      wait_if_needed_def record_call_def Let_def
      split: sum.splits list.splits prod.splits if_splits)

text \<open>
  C9, the code at the failing input. A chat call of an Ollama client never touches the
  cost ledger, whatever the backend answers: a successful call (here a reply of four
  words, estimated at 5 tokens) leaves \<open>call_count\<close> and \<open>total_tokens\<close> at 0. The
  same call through an OpenAI or an Anthropic client is recorded.
\<close>

theorem ollama_chat_is_not_recorded:
  "tracker (snd (chat be messages max_tokens (c\<lparr>provider := Ollama\<rparr>))) = tracker c
   \<and> fst (chat ok_backend [] 1000 (new_client Ollama ''llama3'' 10 (7 / 10) tick))
       = Inr \<lparr>response_content = ''All controls look fine'', response_model = ''llama3'',
               tokens_used = 5, cost = 0, response_timestamp = 1\<rparr>
   \<and> call_count (tracker (snd (chat ok_backend [] 1000
        (new_client Ollama ''llama3'' 10 (7 / 10) tick)))) = 0
   \<and> total_tokens (tracker (snd (chat ok_backend [] 1000
        (new_client Ollama ''llama3'' 10 (7 / 10) tick)))) = 0
   \<and> call_count (tracker (snd (chat ok_backend [] 1000
        (new_client OpenAI ''gpt-4o'' 10 (7 / 10) tick)))) = 1
   \<and> total_tokens (tracker (snd (chat ok_backend [] 1000
        (new_client OpenAI ''gpt-4o'' 10 (7 / 10) tick)))) = 3000
   \<and> call_count (tracker (snd (chat ok_backend [] 1000
        (new_client Anthropic ''claude-3-haiku'' 10 (7 / 10) tick)))) = 1"
proof -
  have general: "tracker (snd (chat be messages max_tokens (c\<lparr>provider := Ollama\<rparr>))) = tracker c"
    by (simp add: chat_def chat_ollama_def read_clock_def wait_if_needed_def Let_def
        split: sum.splits list.splits prod.splits)
  have w: "py_split_ws ''All controls look fine'' = [''All'', ''controls'', ''look'', ''fine'']"
    by code_simp
  show ?thesis
    using general
    by (simp add: chat_def chat_ollama_def chat_openai_def chat_anthropic_def read_clock_def
        wait_if_needed_def record_call_def new_client_def ok_backend_def Let_def w
        pricing_get_def PRICING_def py_startswith_def tick_def)
qed

subsection \<open>Delegation in the task ledger\<close>



























end
